theory Spec2Isabelle
  imports Complex_Main "HOL-Library.Sublist"
begin

section \<open>JavaScript values used by the decision logic\<close>

text \<open>
  The rule-based analysis of \<^verbatim>\<open>backend/services/mlService.js\<close> computes with
  JavaScript numbers that are small decimal constants, their sums and comparisons. They are
  modelled as exact rationals (\<^typ>\<open>rat\<close>): the binary rounding of IEEE doubles, NaN and
  the infinities are outside the model. A sum of doubles can differ from the exact sum in
  its last bits. The risk score rounded to three decimals is the same either way, since the
  exact sums are multiples of 0.05; an unrounded score that is exactly a tier boundary, and
  the third decimal of the confidence, can differ. The properties stated below about the
  whole analysis are orderings, bounds, the rounded risk score, the lines that can occur
  among the recommendations and equalities between two runs, none of which depends on
  those last bits. An absent property
  (\<^verbatim>\<open>undefined\<close>) is \<^const>\<open>None\<close>. Strings are ASCII strings;
  \<^verbatim>\<open>toLowerCase\<close> maps \<^verbatim>\<open>A-Z\<close> to \<^verbatim>\<open>a-z\<close>.
\<close>

datatype jsError = TypeError

definition toLowerChar :: "char \<Rightarrow> char" where
  "toLowerChar c =
     (let n = (of_char c :: nat) in if 65 \<le> n \<and> n \<le> 90 then char_of (n + 32) else c)"

definition toLowerCase :: "string \<Rightarrow> string" where
  "toLowerCase s = map toLowerChar s"

text \<open>\<^verbatim>\<open>s.includes(sub)\<close>: \<open>sub\<close> occurs in \<open>s\<close> as a contiguous run.\<close>

definition includes_str :: "string \<Rightarrow> string \<Rightarrow> bool" where
  "includes_str s sub = sublist sub s"

text \<open>\<^verbatim>\<open>Math.round(x * 1000) / 1000\<close>; \<^verbatim>\<open>Math.round\<close> rounds a half upwards.\<close>

definition round3 :: "rat \<Rightarrow> rat" where
  "round3 x = of_int \<lfloor>x * 1000 + 1 / 2\<rfloor> / 1000"

text \<open>Comparisons against a possibly absent number: \<^verbatim>\<open>undefined > k\<close> and
  \<^verbatim>\<open>undefined < k\<close> are both false.\<close>

definition js_gt :: "rat option \<Rightarrow> rat \<Rightarrow> bool" where
  "js_gt v k = (case v of None \<Rightarrow> False | Some x \<Rightarrow> x > k)"

definition js_lt :: "rat option \<Rightarrow> rat \<Rightarrow> bool" where
  "js_lt v k = (case v of None \<Rightarrow> False | Some x \<Rightarrow> x < k)"

text \<open>Truthiness of a possibly absent number: \<^verbatim>\<open>undefined\<close> and \<^verbatim>\<open>0\<close> are falsy.\<close>

definition truthy :: "rat option \<Rightarrow> bool" where
  "truthy v = (case v of None \<Rightarrow> False | Some x \<Rightarrow> x \<noteq> 0)"


section \<open>Symptom records (the fields the analysis reads)\<close>

record symptom =
  name :: string
  severity :: rat

text \<open>\<open>temperature\<close> is \<^verbatim>\<open>vitalSigns.temperature?.value\<close>.\<close>

record vitals =
  temperature :: "rat option"
  heartRate :: "rat option"
  oxygenSaturation :: "rat option"

record info =
  recentTravel :: bool
  recentExposure :: bool

record symptomRecord =
  symptoms :: "symptom list"
  vitalSigns :: "vitals option"
  additionalInfo :: "info option"

text \<open>\<^verbatim>\<open>const vitals = symptomRecord.vitalSigns || {}\<close>\<close>

definition vitalsOrEmpty :: "vitals option \<Rightarrow> vitals" where
  "vitalsOrEmpty v =
     (case v of
        None \<Rightarrow> \<lparr>temperature = None, heartRate = None, oxygenSaturation = None\<rparr>
      | Some x \<Rightarrow> x)"

text \<open>
  What the submission route and the SymptomRecord schema accept, for the fields above: at
  least one symptom, names of 2 to 50 characters, integer severities from 1 to 10,
  temperature in 90..110, heart rate in 30..220, oxygen saturation in 70..100.
\<close>

definition inRange :: "rat option \<Rightarrow> rat \<Rightarrow> rat \<Rightarrow> bool" where
  "inRange v lo hi = (case v of None \<Rightarrow> True | Some x \<Rightarrow> lo \<le> x \<and> x \<le> hi)"

definition validSymptom :: "symptom \<Rightarrow> bool" where
  "validSymptom s =
     (2 \<le> length (name s) \<and> length (name s) \<le> 50 \<and>
      of_int \<lfloor>severity s\<rfloor> = severity s \<and> 1 \<le> severity s \<and> severity s \<le> 10)"

definition validSymptomRecord :: "symptomRecord \<Rightarrow> bool" where
  "validSymptomRecord r =
     (symptoms r \<noteq> [] \<and> list_all validSymptom (symptoms r) \<and>
      (let v = vitalsOrEmpty (vitalSigns r) in
         inRange (temperature v) 90 110 \<and> inRange (heartRate v) 30 220 \<and>
         inRange (oxygenSaturation v) 70 100))"


section \<open>The state of the analysis service\<close>

record encoder =
  encoder_symptoms :: "string list"
  encoder_syndromes :: "string list"

text \<open>\<open>featureEncoder\<close> is \<^verbatim>\<open>null\<close> until \<^verbatim>\<open>initialize()\<close> has run.\<close>

record mlService =
  featureEncoder :: "encoder option"

text \<open>
  \<^verbatim>\<open>extractFeatures\<close>: the caller only reads \<^verbatim>\<open>features.length\<close>, so the model
  returns that length: one slot per encoder symptom and eleven further features. Reading
  \<^verbatim>\<open>this.featureEncoder.symptoms\<close> of an uninitialised service throws.
\<close>

definition extractFeatures_length :: "mlService \<Rightarrow> symptomRecord \<Rightarrow> jsError + nat" where
  "extractFeatures_length svc r =
     (case featureEncoder svc of
        None \<Rightarrow> Inl TypeError
      | Some enc \<Rightarrow> Inr (length (encoder_symptoms enc) + 11))"


section \<open>Risk scoring\<close>

definition symptomWeightsTable :: "(string \<times> rat) list" where
  "symptomWeightsTable =
     [(''fever'', 3 / 10),
      (''chest_pain'', 4 / 10),
      (''shortness_of_breath'', 3 / 10),
      (''dizziness'', 2 / 10),
      (''severe_headache'', 2 / 10),
      (''cough'', 15 / 100),
      (''headache'', 1 / 10),
      (''fatigue'', 1 / 10),
      (''nausea'', 15 / 100),
      (''vomiting'', 2 / 10),
      (''diarrhea'', 15 / 100),
      (''abdominal_pain'', 2 / 10)]"

text \<open>
  \<open>symptomWeights\<close> is an object literal, so a lookup that misses its own keys continues
  in \<^verbatim>\<open>Object.prototype\<close>, whose properties are functions or objects.
\<close>

definition objectPrototypeKeys :: "string list" where
  "objectPrototypeKeys =
     [''constructor'', ''__proto__'', ''hasOwnProperty'', ''isPrototypeOf'',
      ''propertyIsEnumerable'', ''toLocaleString'', ''toString'', ''valueOf'',
      ''__defineGetter__'', ''__defineSetter__'', ''__lookupGetter__'', ''__lookupSetter__'']"

datatype jsProperty = Weight rat | Inherited | Absent

definition symptomWeights :: "string \<Rightarrow> jsProperty" where
  "symptomWeights k =
     (case map_of symptomWeightsTable k of
        Some w \<Rightarrow> Weight w
      | None \<Rightarrow> if k \<in> set objectPrototypeKeys then Inherited else Absent)"

text \<open>
  The \<^verbatim>\<open>forEach\<close> over the symptom names. A number is added when it is truthy. An
  inherited property is truthy as well: \<^verbatim>\<open>riskScore += \<close> then yields a string, and the
  \<^verbatim>\<open>riskScore.toFixed(3)\<close> of the log line throws.
\<close>

fun addSymptomWeights :: "string list \<Rightarrow> rat \<Rightarrow> jsError + rat" where
  "addSymptomWeights [] riskScore = Inr riskScore"
| "addSymptomWeights (symptom # rest) riskScore =
     (case symptomWeights symptom of
        Weight w \<Rightarrow>
          if w \<noteq> 0 then addSymptomWeights rest (riskScore + w)
          else addSymptomWeights rest riskScore
      | Inherited \<Rightarrow> Inl TypeError
      | Absent \<Rightarrow> addSymptomWeights rest riskScore)"

definition addVitalSigns :: "vitals option \<Rightarrow> rat \<Rightarrow> rat" where
  "addVitalSigns vs riskScore =
     (let v = vitalsOrEmpty vs;
          r1 = (if truthy (temperature v) \<and> js_gt (temperature v) 102
                then riskScore + 2 / 10 else riskScore);
          r2 = (if truthy (heartRate v) \<and> js_gt (heartRate v) 100
                then r1 + 1 / 10 else r1);
          r3 = (if truthy (oxygenSaturation v) \<and> js_lt (oxygenSaturation v) 95
                then r2 + 3 / 10 else r2)
      in r3)"


section \<open>Syndrome prediction\<close>

text \<open>\<^verbatim>\<open>Object.entries(syndromeRules)\<close> lists the rules in insertion order.\<close>

definition syndromeRules :: "(string \<times> string list) list" where
  "syndromeRules =
     [(''respiratory_infection'', [''fever'', ''cough'', ''shortness_of_breath'', ''chest_pain'']),
      (''gastrointestinal'', [''nausea'', ''vomiting'', ''diarrhea'', ''abdominal_pain'']),
      (''flu'', [''fever'', ''chills'', ''muscle_pain'', ''fatigue'', ''body_aches'']),
      (''neurological'', [''headache'', ''dizziness'', ''neck_stiffness'', ''severe_headache'']),
      (''cardiac'', [''chest_pain'', ''heart_palpitations'', ''shortness_of_breath''])]"

fun predictLoop :: "(string \<times> string list) list \<Rightarrow> string list \<Rightarrow> string" where
  "predictLoop [] symptomNames = ''unknown''"
| "predictLoop ((syndrome, triggers) # rest) symptomNames =
     (let matches = filter (\<lambda>trigger. trigger \<in> set symptomNames) triggers in
      if length matches > 0 then
        (if length matches \<ge> 2 \<or> (syndrome = ''cardiac'' \<and> length matches \<ge> 1)
         then syndrome
         else predictLoop rest symptomNames)
      else predictLoop rest symptomNames)"

definition predictSyndrome :: "string list \<Rightarrow> string" where
  "predictSyndrome symptomNames = predictLoop syndromeRules symptomNames"


section \<open>Recommendations\<close>

definition riskRecommendations :: "rat \<Rightarrow> string list" where
  "riskRecommendations riskScore =
     (if riskScore \<ge> 8 / 10 then
        [''Seek immediate medical attention'', ''Consider emergency room visit'']
      else if riskScore \<ge> 6 / 10 then
        [''Schedule urgent appointment with healthcare provider'', ''Monitor symptoms closely'']
      else if riskScore \<ge> 4 / 10 then
        [''Schedule routine appointment with healthcare provider'',
         ''Continue monitoring symptoms'']
      else
        [''Continue self-care and monitoring'', ''Seek medical attention if symptoms worsen''])"

definition syndromeRecommendations :: "string \<Rightarrow> string list" where
  "syndromeRecommendations syndrome =
     (let s = toLowerCase syndrome in
      if s = ''respiratory infection'' then
        [''Rest and stay hydrated'', ''Use humidifier if available'',
         ''Avoid close contact with others'']
      else if s = ''gastrointestinal'' then
        [''Maintain hydration'', ''Follow BRAT diet (bananas, rice, applesauce, toast)'',
         ''Avoid dairy and fatty foods'']
      else if s = ''fever'' then
        [''Monitor temperature regularly'', ''Stay hydrated'',
         ''Use fever-reducing medications as directed'']
      else
        [''Follow general illness care guidelines''])"

definition symptomRecommendations :: "symptomRecord \<Rightarrow> string list" where
  "symptomRecommendations r =
     (let hasFever = list_ex (\<lambda>s. includes_str (toLowerCase (name s)) ''fever'' \<or>
                                  includes_str (toLowerCase (name s)) ''temperature'')
                             (symptoms r);
          hasCough = list_ex (\<lambda>s. includes_str (toLowerCase (name s)) ''cough'') (symptoms r)
      in (if hasFever then [''Monitor temperature every 4 hours''] else []) @
         (if hasCough then [''Use cough suppressants as needed'', ''Avoid irritants like smoke'']
          else []))"

definition generateRecommendations :: "rat \<Rightarrow> string \<Rightarrow> symptomRecord \<Rightarrow> string list" where
  "generateRecommendations riskScore syndrome r =
     riskRecommendations riskScore @ syndromeRecommendations syndrome @ symptomRecommendations r"


section \<open>Review flagging\<close>

definition shouldFlagForReview :: "rat \<Rightarrow> rat \<Rightarrow> symptomRecord \<Rightarrow> bool" where
  "shouldFlagForReview riskScore conf r =
     (if riskScore \<ge> 7 / 10 then True
      else if conf < 3 / 10 then True
      else
        (let severeSymptoms = length (filter (\<lambda>s. severity s \<ge> 8) (symptoms r)) in
         if severeSymptoms \<ge> 2 then True
         else if (case additionalInfo r of
                    None \<Rightarrow> False
                  | Some i \<Rightarrow> recentTravel i \<or> recentExposure i) then True
         else
           (let v = vitalsOrEmpty (vitalSigns r) in
            if js_gt (temperature v) 103 \<or> js_gt (heartRate v) 100 \<or>
               js_lt (oxygenSaturation v) 95
            then True
            else False)))"


section \<open>The analysis pipeline\<close>

text \<open>The persisted fields of the result; the timestamp is not modelled.\<close>

record analysisResult =
  riskScore :: rat
  predictedSyndrome :: string
  confidence :: rat
  recommendations :: "string list"
  flaggedForReview :: bool
  modelVersion :: string

text \<open>The \<^verbatim>\<open>catch\<close> branch of \<^verbatim>\<open>analyzeSymptoms\<close>.\<close>

definition fallbackAnalysis :: analysisResult where
  "fallbackAnalysis =
     \<lparr>riskScore = 1 / 2,
      predictedSyndrome = ''Unknown'',
      confidence = 0,
      recommendations = [''Manual review recommended due to analysis error''],
      flaggedForReview = True,
      modelVersion = ''1.0.0''\<rparr>"

text \<open>
  \<open>analyzeSymptoms svc rnd r version\<close>: \<open>rnd\<close> is the value \<^verbatim>\<open>Math.random()\<close>
  returns in this call (a number with \<open>0 \<le> rnd < 1\<close>), \<open>version\<close> is
  \<^verbatim>\<open>modelRecord?.version\<close>.
\<close>

definition analyzeSymptoms ::
    "mlService \<Rightarrow> rat \<Rightarrow> symptomRecord \<Rightarrow> string option \<Rightarrow> analysisResult" where
  "analyzeSymptoms svc rnd r version =
     (case extractFeatures_length svc r of
        Inl e \<Rightarrow> fallbackAnalysis
      | Inr n \<Rightarrow>
          (let symptomNames = map (\<lambda>s. toLowerCase (name s)) (symptoms r) in
           case addSymptomWeights symptomNames (1 / 10) of
             Inl e \<Rightarrow> fallbackAnalysis
           | Inr r1 \<Rightarrow>
               (let r2 = addVitalSigns (vitalSigns r) r1;
                    capped = min r2 1;
                    syndrome = predictSyndrome symptomNames;
                    conf = 6 / 10 + rnd * (3 / 10);
                    recs = generateRecommendations capped syndrome r;
                    flagged = shouldFlagForReview capped conf r
                in \<lparr>riskScore = round3 capped,
                    predictedSyndrome = syndrome,
                    confidence = round3 conf,
                    recommendations = recs,
                    flaggedForReview = flagged,
                    modelVersion =
                      (case version of
                         None \<Rightarrow> ''1.0.0''
                       | Some v \<Rightarrow> if v = [] then ''1.0.0'' else v)\<rparr>)))"


section \<open>Outbreak detection\<close>

text \<open>
  The static method \<^verbatim>\<open>detectNewOutbreaks\<close> of the DiseaseOutbreak model and the two
  collections it works on. A date is its number of milliseconds since the epoch. The records
  carry the fields the method reads or writes; the free-text description and the action log
  of an outbreak are left out. Counts are natural numbers and confidences exact rationals;
  the average confidence of a group is the exact average.
\<close>

datatype severityLevel = Low | Medium | High | Critical

datatype caseStatus = Detected | Confirmed | Treated | Resolved | False_positive

datatype outbreakStatus =
  Outbreak_detected | Outbreak_confirmed | Outbreak_contained | Outbreak_resolved
  | Outbreak_false_alarm

record diseaseCase =
  case_id :: nat
  diseaseName :: string
  case_confidence :: rat
  caseDate :: int
  location :: string
  case_severity :: severityLevel
  isEmergency :: bool
  case_status :: caseStatus

record caseGroup =
  group_id :: "string \<times> string"
  caseCount :: nat
  group_emergencyCases :: nat
  group_criticalCases :: nat
  group_averageConfidence :: rat
  firstCaseDate :: int
  lastCaseDate :: int
  caseIds :: "nat list"

record diseaseOutbreak =
  outbreak_diseaseName :: string
  outbreak_location :: string
  startDate :: int
  outbreak_status :: outbreakStatus
  outbreak_severity :: severityLevel
  totalCases :: nat
  emergencyCases :: nat
  criticalCases :: nat
  averageConfidence :: rat
  threshold :: int
  timeWindow :: int
  affectedPatients :: "nat list"
  isActive :: bool

record database =
  diseaseCases :: "diseaseCase list"
  diseaseOutbreaks :: "diseaseOutbreak list"

datatype saveError = ValidationError

text \<open>
  \<^verbatim>\<open>String.prototype.trim\<close> on ASCII strings: white space and line terminators are
  removed at both ends. It is the \<^verbatim>\<open>trim\<close> setter of the schema's disease name.
\<close>

definition isWhiteSpace :: "char \<Rightarrow> bool" where
  "isWhiteSpace c = ((of_char c :: nat) \<in> {9, 10, 11, 12, 13, 32})"

definition trim :: "string \<Rightarrow> string" where
  "trim s = rev (dropWhile isWhiteSpace (rev (dropWhile isWhiteSpace s)))"

text \<open>
  The first \<^verbatim>\<open>$match\<close> stage of the aggregation. \<open>start\<close> is the value of
  \<^verbatim>\<open>startDate\<close> after \<^verbatim>\<open>startDate.setDate(startDate.getDate() - timeWindow)\<close>: the time
  of the call moved back by \<open>timeWindow\<close> calendar days of the server's time zone. That
  value depends on the clock and on the time zone, so it is an input of the model; a window
  so large that the result is no valid date is outside the model.
\<close>

definition matchStage :: "int \<Rightarrow> diseaseCase \<Rightarrow> bool" where
  "matchStage start c =
     (caseDate c \<ge> start \<and> (case_status c = Detected \<or> case_status c = Confirmed))"

text \<open>
  The \<^verbatim>\<open>$group\<close> stage: one row per (diseaseName, location) pair among the matched
  cases, with the accumulators over the cases of the pair. The order of the rows is not
  specified by the database; here they follow the cases. A group is never empty, so the
  value of \<open>minDate\<close> and \<open>maxDate\<close> on the empty list is never used.
\<close>

definition groupKey :: "diseaseCase \<Rightarrow> string \<times> string" where
  "groupKey c = (diseaseName c, location c)"

fun minDate :: "int list \<Rightarrow> int" where
  "minDate [] = 0"
| "minDate (d # ds) = fold min ds d"

fun maxDate :: "int list \<Rightarrow> int" where
  "maxDate [] = 0"
| "maxDate (d # ds) = fold max ds d"

definition groupOf :: "diseaseCase list \<Rightarrow> string \<times> string \<Rightarrow> caseGroup" where
  "groupOf cs k =
     (let members = filter (\<lambda>c. groupKey c = k) cs in
      \<lparr>group_id = k,
       caseCount = length members,
       group_emergencyCases = length (filter isEmergency members),
       group_criticalCases = length (filter (\<lambda>c. case_severity c = Critical) members),
       group_averageConfidence =
         sum_list (map case_confidence members) / of_nat (length members),
       firstCaseDate = minDate (map caseDate members),
       lastCaseDate = maxDate (map caseDate members),
       caseIds = map case_id members\<rparr>)"

definition groupStage :: "diseaseCase list \<Rightarrow> caseGroup list" where
  "groupStage cs = map (groupOf cs) (remdups (map groupKey cs))"

text \<open>The pipeline up to the second \<^verbatim>\<open>$match\<close> stage, \<^verbatim>\<open>caseCount >= threshold\<close>.\<close>

definition potentialOutbreaks :: "int \<Rightarrow> int \<Rightarrow> diseaseCase list \<Rightarrow> caseGroup list" where
  "potentialOutbreaks thr start cs =
     filter (\<lambda>g. int (caseCount g) \<ge> thr) (groupStage (filter (matchStage start) cs))"

text \<open>
  \<^verbatim>\<open>this.findOne({ diseaseName, location, isActive: true })\<close>. The filter is cast by the
  schema before it is sent, and the setters of a path run on the filter as well: the
  disease name is compared trimmed.
\<close>

definition findOneActive ::
    "string \<Rightarrow> string \<Rightarrow> diseaseOutbreak list \<Rightarrow> diseaseOutbreak option" where
  "findOneActive d l obs =
     find (\<lambda>ob. outbreak_diseaseName ob = trim d \<and> outbreak_location ob = l \<and> isActive ob)
       obs"

definition outbreakSeverity :: "caseGroup \<Rightarrow> severityLevel" where
  "outbreakSeverity outbreak =
     (if caseCount outbreak \<ge> 20 \<or> group_emergencyCases outbreak \<ge> 5 then Critical
      else if caseCount outbreak \<ge> 10 \<or> group_emergencyCases outbreak \<ge> 3 then High
      else if caseCount outbreak \<ge> 5 then Medium
      else Low)"

text \<open>
  \<^verbatim>\<open>new this({...})\<close>: the fields set from the group, the disease name through its
  \<^verbatim>\<open>trim\<close> setter, and the schema defaults \<^verbatim>\<open>status: 'detected'\<close> and
  \<^verbatim>\<open>isActive: true\<close>.
\<close>

definition newOutbreak :: "int \<Rightarrow> int \<Rightarrow> caseGroup \<Rightarrow> diseaseOutbreak" where
  "newOutbreak thr tw outbreak =
     \<lparr>outbreak_diseaseName = trim (fst (group_id outbreak)),
      outbreak_location = snd (group_id outbreak),
      startDate = firstCaseDate outbreak,
      outbreak_status = Outbreak_detected,
      outbreak_severity = outbreakSeverity outbreak,
      totalCases = caseCount outbreak,
      emergencyCases = group_emergencyCases outbreak,
      criticalCases = group_criticalCases outbreak,
      averageConfidence = group_averageConfidence outbreak,
      threshold = thr,
      timeWindow = tw,
      affectedPatients = caseIds outbreak,
      isActive = True\<rparr>"

text \<open>
  \<^verbatim>\<open>await newOutbreak.save()\<close> validates the document against the schema and rejects it,
  without storing it, when a validator fails: the disease name and the location are
  required and must not be empty, and the average confidence must lie between 0 and 1. The
  other validated paths (start date, severity, threshold, time window) always hold a value
  of their type here. Failures of the storage itself are outside the model.
\<close>

definition save :: "diseaseOutbreak \<Rightarrow> diseaseOutbreak list \<Rightarrow> saveError + diseaseOutbreak list" where
  "save ob obs =
     (if outbreak_diseaseName ob = [] \<or> outbreak_location ob = [] \<or>
         averageConfidence ob < 0 \<or> averageConfidence ob > 1
      then Inl ValidationError
      else Inr (obs @ [ob]))"

text \<open>
  The \<^verbatim>\<open>for\<close> loop over the potential outbreaks, threading the outbreak collection and
  the list \<open>newOutbreaks\<close>. A rejected save ends the method with the error; what was
  stored before stays stored.
\<close>

fun detectLoop ::
    "int \<Rightarrow> int \<Rightarrow> caseGroup list \<Rightarrow> diseaseOutbreak list \<Rightarrow> diseaseOutbreak list \<Rightarrow>
     diseaseOutbreak list \<times> (saveError + diseaseOutbreak list)" where
  "detectLoop thr tw [] obs newOutbreaks = (obs, Inr newOutbreaks)"
| "detectLoop thr tw (outbreak # rest) obs newOutbreaks =
     (case findOneActive (fst (group_id outbreak)) (snd (group_id outbreak)) obs of
        Some existingOutbreak \<Rightarrow> detectLoop thr tw rest obs newOutbreaks
      | None \<Rightarrow>
          (case save (newOutbreak thr tw outbreak) obs of
             Inl e \<Rightarrow> (obs, Inl e)
           | Inr obs' \<Rightarrow>
               detectLoop thr tw rest obs' (newOutbreaks @ [newOutbreak thr tw outbreak])))"

text \<open>
  \<open>detectNewOutbreaks thr tw start db\<close>: the threshold, the time window in days, the start
  date computed from the clock and the window (see \<open>matchStage\<close>), and the database; it
  returns the database after the call together with the list of new outbreaks or the
  error.
\<close>

definition detectNewOutbreaks ::
    "int \<Rightarrow> int \<Rightarrow> int \<Rightarrow> database \<Rightarrow> database \<times> (saveError + diseaseOutbreak list)" where
  "detectNewOutbreaks thr tw start db =
     (let (obs, result) =
             detectLoop thr tw (potentialOutbreaks thr start (diseaseCases db))
               (diseaseOutbreaks db) []
      in (db\<lparr>diseaseOutbreaks := obs\<rparr>, result))"


section \<open>Notions used to state the properties\<close>

text \<open>The weight a lower-cased symptom name adds when the scoring loop completes.\<close>

definition weightOf :: "string \<Rightarrow> rat" where
  "weightOf k = (case symptomWeights k of Weight w \<Rightarrow> w | Inherited \<Rightarrow> 0 | Absent \<Rightarrow> 0)"

text \<open>
  The two ways \<^verbatim>\<open>analyzeSymptoms\<close> reaches its \<^verbatim>\<open>catch\<close> branch on a well-typed
  record: the service was never initialised, or a lower-cased symptom name is a property
  inherited from \<^verbatim>\<open>Object.prototype\<close>.
\<close>

definition throwsTypeError :: "mlService \<Rightarrow> symptomRecord \<Rightarrow> bool" where
  "throwsTypeError svc r =
     (featureEncoder svc = None \<or>
      list_ex (\<lambda>s. symptomWeights (toLowerCase (name s)) = Inherited) (symptoms r))"

abbreviation lname :: "symptom \<Rightarrow> string" where
  "lname s \<equiv> toLowerCase (name s)"

text \<open>
  The service as \<^verbatim>\<open>initializeEncoders\<close> leaves it when it falls back to its defaults, and
  a report with the given symptom names (severity 5, no vital signs, no additional
  information), for concrete evaluations.
\<close>

definition defaultService :: mlService where
  "defaultService =
     \<lparr>featureEncoder = Some
        \<lparr>encoder_symptoms =
           [''fever'', ''cough'', ''headache'', ''fatigue'', ''nausea'', ''vomiting'', ''diarrhea'',
            ''abdominal_pain'', ''chest_pain'', ''shortness_of_breath'', ''dizziness''],
         encoder_syndromes =
           [''respiratory_infection'', ''gastrointestinal'', ''flu'', ''common_cold'',
            ''neurological'', ''cardiac'', ''unknown'']\<rparr>\<rparr>"

definition reportOf :: "string list \<Rightarrow> symptomRecord" where
  "reportOf names =
     \<lparr>symptoms = map (\<lambda>n. \<lparr>name = n, severity = 5\<rparr>) names,
      vitalSigns = None,
      additionalInfo = None\<rparr>"

text \<open>
  The report with its symptom-name list deduplicated: of several symptoms with the same
  lower-cased name the first is kept.
\<close>

fun dedupeFrom :: "string list \<Rightarrow> symptom list \<Rightarrow> symptom list" where
  "dedupeFrom seen [] = []"
| "dedupeFrom seen (s # rest) =
     (if toLowerCase (name s) \<in> set seen then dedupeFrom seen rest
      else s # dedupeFrom (toLowerCase (name s) # seen) rest)"

definition dedupeSymptomNames :: "symptomRecord \<Rightarrow> symptomRecord" where
  "dedupeSymptomNames r = r\<lparr>symptoms := dedupeFrom [] (symptoms r)\<rparr>"

text \<open>
  The classifier in the words of the specification: a category matches when at least two of
  its triggers are present, the cardiac category when at least one is; the first matching
  category in rule order wins, otherwise \<^verbatim>\<open>unknown\<close>.
\<close>

definition spec_matches :: "string \<Rightarrow> string list \<Rightarrow> string list \<Rightarrow> bool" where
  "spec_matches syndrome triggers symptomNames =
     (if syndrome = ''cardiac'' then 1 \<le> card (set triggers \<inter> set symptomNames)
      else 2 \<le> card (set triggers \<inter> set symptomNames))"

definition spec_classifier :: "string list \<Rightarrow> string" where
  "spec_classifier symptomNames =
     (case find (\<lambda>(syndrome, triggers). spec_matches syndrome triggers symptomNames) syndromeRules of
        None \<Rightarrow> ''unknown''
      | Some (syndrome, triggers) \<Rightarrow> syndrome)"


text \<open>The eight lines of the four risk-tier blocks.\<close>

definition tierLines :: "string list" where
  "tierLines =
     [''Seek immediate medical attention'', ''Consider emergency room visit'',
      ''Schedule urgent appointment with healthcare provider'', ''Monitor symptoms closely'',
      ''Schedule routine appointment with healthcare provider'', ''Continue monitoring symptoms'',
      ''Continue self-care and monitoring'', ''Seek medical attention if symptoms worsen'']"

text \<open>
  The lines of the two syndrome blocks keyed \<^verbatim>\<open>respiratory infection\<close> and
  \<^verbatim>\<open>fever\<close>.
\<close>

definition unreachableLines :: "string list" where
  "unreachableLines =
     [''Rest and stay hydrated'', ''Use humidifier if available'',
      ''Avoid close contact with others'',
      ''Monitor temperature regularly'', ''Stay hydrated'',
      ''Use fever-reducing medications as directed'']"

text \<open>
  The risk score in the words of the specification: base 0.10, the listed weight of every
  symptom name (0 for a name that is not listed), the three vital-sign penalties, capped at
  1.0 and rounded to three decimals.
\<close>

definition spec_weightTable :: "(string \<times> rat) list" where
  "spec_weightTable =
     [(''fever'', 30 / 100), (''chest_pain'', 40 / 100), (''shortness_of_breath'', 30 / 100),
      (''dizziness'', 20 / 100), (''cough'', 15 / 100), (''headache'', 10 / 100),
      (''fatigue'', 10 / 100), (''nausea'', 15 / 100), (''vomiting'', 20 / 100),
      (''diarrhea'', 15 / 100), (''abdominal_pain'', 20 / 100)]"

definition spec_weight :: "string \<Rightarrow> rat" where
  "spec_weight k = (case map_of spec_weightTable k of None \<Rightarrow> 0 | Some w \<Rightarrow> w)"

definition spec_vitalPenalties :: "symptomRecord \<Rightarrow> rat" where
  "spec_vitalPenalties r =
     (let v = vitalsOrEmpty (vitalSigns r) in
      (if js_gt (temperature v) 102 then 20 / 100 else 0) +
      (if js_gt (heartRate v) 100 then 10 / 100 else 0) +
      (if js_lt (oxygenSaturation v) 95 then 30 / 100 else 0))"

definition spec_riskScore :: "symptomRecord \<Rightarrow> rat" where
  "spec_riskScore r =
     round3 (min 1 (10 / 100 +
        sum_list (map (\<lambda>s. spec_weight (toLowerCase (name s))) (symptoms r)) +
        spec_vitalPenalties r))"

text \<open>The same rule with the entry \<^verbatim>\<open>severe_headache: 0.2\<close> added to the table.\<close>

definition amended_weight :: "string \<Rightarrow> rat" where
  "amended_weight k = (if k = ''severe_headache'' then 20 / 100 else spec_weight k)"

definition amended_riskScore :: "symptomRecord \<Rightarrow> rat" where
  "amended_riskScore r =
     round3 (min 1 (10 / 100 +
        sum_list (map (\<lambda>s. amended_weight (toLowerCase (name s))) (symptoms r)) +
        spec_vitalPenalties r))"

text \<open>
  Notions for outbreak detection: the (diseaseName, location) pair of an outbreak, the pair
  under which the outbreak of a group is stored, whether a collection holds an active
  outbreak for a pair, the invariant of at most one active outbreak per pair, and a
  sequence of detection runs, each with its threshold, its time window and its start date.
\<close>

definition outbreakKey :: "diseaseOutbreak \<Rightarrow> string \<times> string" where
  "outbreakKey ob = (outbreak_diseaseName ob, outbreak_location ob)"

definition storedKey :: "string \<times> string \<Rightarrow> string \<times> string" where
  "storedKey k = (trim (fst k), snd k)"

definition hasActive :: "string \<times> string \<Rightarrow> diseaseOutbreak list \<Rightarrow> bool" where
  "hasActive k obs = list_ex (\<lambda>ob. isActive ob \<and> outbreakKey ob = k) obs"

definition atMostOneActive :: "diseaseOutbreak list \<Rightarrow> bool" where
  "atMostOneActive obs = distinct (map outbreakKey (filter isActive obs))"

fun runDetections :: "(int \<times> int \<times> int) list \<Rightarrow> database \<Rightarrow> database" where
  "runDetections [] db = db"
| "runDetections ((thr, tw, start) # rest) db =
     runDetections rest (fst (detectNewOutbreaks thr tw start db))"

text \<open>
  The cases a run looks at, written out: status detected or confirmed and a case date no
  earlier than the start date; and those of them with a given disease name and location.
\<close>

definition consideredCases :: "int \<Rightarrow> diseaseCase list \<Rightarrow> diseaseCase list" where
  "consideredCases start cs =
     filter (\<lambda>c. start \<le> caseDate c \<and>
                 (case_status c = Detected \<or> case_status c = Confirmed)) cs"

definition casesOf :: "string \<times> string \<Rightarrow> diseaseCase list \<Rightarrow> diseaseCase list" where
  "casesOf k cs = filter (\<lambda>c. diseaseName c = fst k \<and> location c = snd k) cs"

text \<open>
  A case record as the DiseaseCase schema stores it, in the fields that reach an outbreak:
  the disease name trimmed and not empty, the confidence between 0 and 1; and, beyond the
  schema, a location that is not empty.
\<close>

definition acceptableCase :: "diseaseCase \<Rightarrow> bool" where
  "acceptableCase c =
     (trim (diseaseName c) = diseaseName c \<and> diseaseName c \<noteq> [] \<and> location c \<noteq> [] \<and>
      0 \<le> case_confidence c \<and> case_confidence c \<le> 1)"

text \<open>A group whose outbreak passes validation and is stored under the group's own pair.\<close>

definition storable :: "caseGroup \<Rightarrow> bool" where
  "storable g =
     (trim (fst (group_id g)) = fst (group_id g) \<and> fst (group_id g) \<noteq> [] \<and>
      snd (group_id g) \<noteq> [] \<and>
      0 \<le> group_averageConfidence g \<and> group_averageConfidence g \<le> 1)"

text \<open>
  The window in the words of the specification: the case date lies in the trailing time
  window, between the start date and \<open>now\<close>, the time of the call.
\<close>

definition spec_inTrailingWindow :: "int \<Rightarrow> int \<Rightarrow> diseaseCase \<Rightarrow> bool" where
  "spec_inTrailingWindow start now c = (start \<le> caseDate c \<and> caseDate c \<le> now)"

text \<open>The severity classification in the words of the specification.\<close>

definition severityRule :: "nat \<Rightarrow> nat \<Rightarrow> severityLevel" where
  "severityRule cases emergencies =
     (if 20 \<le> cases \<or> 5 \<le> emergencies then Critical
      else if 10 \<le> cases \<or> 3 \<le> emergencies then High
      else if 5 \<le> cases then Medium
      else Low)"

text \<open>
  Example data, for a call at day 1000 after the epoch on a server running in UTC, whose
  start date for a window of seven days is day 993: flu cases at Clinic A, a database of
  five of them dated within these seven days, a database of three dated after the call, and
  the description "five non-emergency flu cases at Clinic A, stored through the schema, all
  dated between the start date and now".
\<close>

definition msPerDay :: int where
  "msPerDay = 86400000"

definition fluCase :: "nat \<Rightarrow> int \<Rightarrow> diseaseCase" where
  "fluCase i d =
     \<lparr>case_id = i, diseaseName = ''flu'', case_confidence = 8 / 10, caseDate = d,
      location = ''Clinic A'', case_severity = Low, isEmergency = False,
      case_status = Detected\<rparr>"

definition fluDatabase :: database where
  "fluDatabase =
     \<lparr>diseaseCases = [fluCase 1 (1000 * msPerDay - 1), fluCase 2 (999 * msPerDay),
         fluCase 3 (998 * msPerDay), fluCase 4 (995 * msPerDay), fluCase 5 (993 * msPerDay)],
      diseaseOutbreaks = []\<rparr>"

definition futureDatabase :: database where
  "futureDatabase =
     \<lparr>diseaseCases = [fluCase 1 (1001 * msPerDay), fluCase 2 (1001 * msPerDay),
         fluCase 3 (1002 * msPerDay)],
      diseaseOutbreaks = []\<rparr>"

definition fiveFluCases :: "int \<Rightarrow> int \<Rightarrow> diseaseCase list \<Rightarrow> bool" where
  "fiveFluCases start now cs =
     (length cs = 5 \<and>
      list_all (\<lambda>c. diseaseName c = ''flu'' \<and> location c = ''Clinic A'' \<and> \<not> isEmergency c \<and>
                    (case_status c = Detected \<or> case_status c = Confirmed) \<and>
                    0 \<le> case_confidence c \<and> case_confidence c \<le> 1 \<and>
                    start \<le> caseDate c \<and> caseDate c \<le> now) cs)"


section \<open>Properties of the analysis\<close>

subsection \<open>Auxiliary facts\<close>

lemma table_positive: "list_all (\<lambda>(k, w). 0 < w) symptomWeightsTable"
  by code_simp

lemma weightOf_nonneg: "0 \<le> weightOf k"
proof (cases "map_of symptomWeightsTable k")
  case None
  then show ?thesis by (simp add: weightOf_def symptomWeights_def)
next
  case (Some w)
  then have "(k, w) \<in> set symptomWeightsTable" by (rule map_of_SomeD)
  with table_positive have "0 < w" by (auto simp: list_all_iff)
  with Some show ?thesis by (simp add: weightOf_def symptomWeights_def)
qed

lemma sum_weights_nonneg: "0 \<le> sum_list (map weightOf ns)"
  by (rule sum_list_nonneg) (auto simp: weightOf_nonneg)

lemma addSymptomWeights_closed:
  "addSymptomWeights ns x =
     (if list_ex (\<lambda>k. symptomWeights k = Inherited) ns then Inl TypeError
      else Inr (x + sum_list (map weightOf ns)))"
  by (induction ns arbitrary: x) (auto simp: weightOf_def split: jsProperty.splits)

lemma addVitalSigns_ge: "x \<le> addVitalSigns vs x"
  by (simp add: addVitalSigns_def Let_def)

lemma addVitalSigns_mono: "x \<le> y \<Longrightarrow> addVitalSigns vs x \<le> addVitalSigns vs y"
  by (simp add: addVitalSigns_def Let_def)

lemma round3_mono: "x \<le> y \<Longrightarrow> round3 x \<le> round3 y"
  unfolding round3_def by (intro divide_right_mono) (simp_all add: floor_mono)

lemma round3_nonneg: "0 \<le> x \<Longrightarrow> 0 \<le> round3 x"
  unfolding round3_def by simp

lemma round3_le_1: "x \<le> 1 \<Longrightarrow> round3 x \<le> 1"
proof -
  assume "x \<le> 1"
  then have "x * 1000 + 1 / 2 < 1001" by simp
  then have "\<lfloor>x * 1000 + 1 / 2\<rfloor> < 1001" by (simp add: floor_less_iff)
  then have "\<lfloor>x * 1000 + 1 / 2\<rfloor> \<le> 1000" by simp
  then have "(of_int \<lfloor>x * 1000 + 1 / 2\<rfloor> :: rat) \<le> 1000" by (metis of_int_le_iff of_int_numeral)
  then show ?thesis unfolding round3_def by simp
qed

lemma analyzeSymptoms_throws:
  "throwsTypeError svc r \<Longrightarrow> analyzeSymptoms svc rnd r version = fallbackAnalysis"
  by (auto simp: throwsTypeError_def analyzeSymptoms_def extractFeatures_length_def
      addSymptomWeights_closed list_ex_iff Let_def split: option.splits)

lemma analyzeSymptoms_returns:
  "\<not> throwsTypeError svc r \<Longrightarrow>
   analyzeSymptoms svc rnd r version =
     (let symptomNames = map (\<lambda>s. toLowerCase (name s)) (symptoms r);
          capped = min (addVitalSigns (vitalSigns r)
                          (1 / 10 + sum_list (map weightOf symptomNames))) 1;
          conf = 6 / 10 + rnd * (3 / 10)
      in \<lparr>riskScore = round3 capped,
          predictedSyndrome = predictSyndrome symptomNames,
          confidence = round3 conf,
          recommendations = generateRecommendations capped (predictSyndrome symptomNames) r,
          flaggedForReview = shouldFlagForReview capped conf r,
          modelVersion =
            (case version of None \<Rightarrow> ''1.0.0'' | Some v \<Rightarrow> if v = [] then ''1.0.0'' else v)\<rparr>)"
  by (auto simp: throwsTypeError_def analyzeSymptoms_def extractFeatures_length_def
      addSymptomWeights_closed list_ex_iff Let_def split: option.splits)

lemma dedupeFrom_names:
  "lname ` set (dedupeFrom seen ss) = lname ` set ss - set seen"
  by (induction ss arbitrary: seen) auto

lemma dedupeFrom_sum_le:
  "sum_list (map (\<lambda>s. weightOf (lname s)) (dedupeFrom seen ss))
     \<le> sum_list (map (\<lambda>s. weightOf (lname s)) ss)"
proof (induction ss arbitrary: seen)
  case Nil
  then show ?case by simp
next
  case (Cons s ss)
  show ?case
    using Cons.IH [of seen] Cons.IH [of "lname s # seen"] weightOf_nonneg [of "lname s"]
    by (simp add: add_increasing)
qed

lemma filter_count_Cons: "length (filter P ss) \<le> length (filter P (s # ss))"
  by simp

lemma dedupeFrom_sum_eq:
  "\<forall>s \<in> set ss. (lname s \<in> set seen \<or> 1 < length (filter (\<lambda>t. lname t = lname s) ss))
       \<longrightarrow> weightOf (lname s) = 0 \<Longrightarrow>
   sum_list (map (\<lambda>s. weightOf (lname s)) (dedupeFrom seen ss))
     = sum_list (map (\<lambda>s. weightOf (lname s)) ss)"
proof (induction ss arbitrary: seen)
  case Nil
  then show ?case by simp
next
  case (Cons s ss)
  have prem: "weightOf (lname t) = 0"
    if "t \<in> set (s # ss)"
      and "lname t \<in> set seen \<or> 1 < length (filter (\<lambda>u. lname u = lname t) (s # ss))"
    for t
    using Cons.prems that by blast
  have up: "1 < length (filter (\<lambda>u. lname u = lname t) (s # ss))"
    if "1 < length (filter (\<lambda>u. lname u = lname t) ss)" for t
    using that filter_count_Cons [of "\<lambda>u. lname u = lname t" ss s] by linarith
  show ?case
  proof (cases "lname s \<in> set seen")
    case True
    have w: "weightOf (lname s) = 0" using prem [of s] True by simp
    have "\<forall>t \<in> set ss. (lname t \<in> set seen \<or> 1 < length (filter (\<lambda>u. lname u = lname t) ss))
       \<longrightarrow> weightOf (lname t) = 0"
    proof (intro ballI impI)
      fix t assume t: "t \<in> set ss"
        and h: "lname t \<in> set seen \<or> 1 < length (filter (\<lambda>u. lname u = lname t) ss)"
      from h up [of t] have "lname t \<in> set seen \<or>
          1 < length (filter (\<lambda>u. lname u = lname t) (s # ss))" by blast
      with prem [of t] t show "weightOf (lname t) = 0" by simp
    qed
    from Cons.IH [OF this] True w show ?thesis by simp
  next
    case False
    have "\<forall>t \<in> set ss. (lname t \<in> set (lname s # seen) \<or>
              1 < length (filter (\<lambda>u. lname u = lname t) ss))
       \<longrightarrow> weightOf (lname t) = 0"
    proof (intro ballI impI)
      fix t assume t: "t \<in> set ss"
        and h: "lname t \<in> set (lname s # seen) \<or> 1 < length (filter (\<lambda>u. lname u = lname t) ss)"
      show "weightOf (lname t) = 0"
      proof (cases "lname t = lname s")
        case True
        from t have "filter (\<lambda>u. lname u = lname t) ss \<noteq> []"
          by (auto simp: filter_empty_conv)
        then have "0 < length (filter (\<lambda>u. lname u = lname t) ss)" by simp
        then have "1 < length (filter (\<lambda>u. lname u = lname t) (s # ss))"
          using True by simp
        with prem [of t] t show ?thesis by simp
      next
        case F: False
        with h have "lname t \<in> set seen \<or> 1 < length (filter (\<lambda>u. lname u = lname t) ss)"
          by auto
        with up [of t] have "lname t \<in> set seen \<or>
            1 < length (filter (\<lambda>u. lname u = lname t) (s # ss))" by blast
        with prem [of t] t show ?thesis by simp
      qed
    qed
    from Cons.IH [OF this] False show ?thesis by simp
  qed
qed

lemma throws_dedupe: "throwsTypeError svc (dedupeSymptomNames r) = throwsTypeError svc r"
proof -
  have "lname ` set (dedupeFrom [] (symptoms r)) = lname ` set (symptoms r)"
    by (simp add: dedupeFrom_names)
  then have "(\<exists>s \<in> set (dedupeFrom [] (symptoms r)). symptomWeights (lname s) = Inherited)
      = (\<exists>s \<in> set (symptoms r). symptomWeights (lname s) = Inherited)"
    by (metis (no_types, lifting) image_iff)
  then show ?thesis
    by (simp add: throwsTypeError_def dedupeSymptomNames_def list_ex_iff)
qed

lemma riskScore_returns:
  "\<not> throwsTypeError svc r \<Longrightarrow>
   riskScore (analyzeSymptoms svc rnd r version) =
     round3 (min (addVitalSigns (vitalSigns r)
        (1 / 10 + sum_list (map (\<lambda>s. weightOf (lname s)) (symptoms r)))) 1)"
  by (simp add: analyzeSymptoms_returns Let_def comp_def)

lemma no_entry_weight: "map_of symptomWeightsTable k = None \<Longrightarrow> weightOf k = 0"
  by (simp add: weightOf_def symptomWeights_def)

lemma matches_card:
  "distinct ts \<Longrightarrow> length (filter (\<lambda>t. t \<in> S) ts) = card (set ts \<inter> S)"
  by (simp add: distinct_length_filter inf_commute)

lemma predictLoop_find:
  "\<forall>(s, ts) \<in> set rules. distinct ts \<Longrightarrow>
   predictLoop rules names =
     (case find (\<lambda>(s, ts). spec_matches s ts names) rules of
        None \<Rightarrow> ''unknown'' | Some (s, ts) \<Rightarrow> s)"
proof (induction rules)
  case Nil
  then show ?case by simp
next
  case (Cons a rules)
  obtain s ts where a: "a = (s, ts)" by (cases a)
  from Cons.prems a have d: "distinct ts" by simp
  from Cons have IH: "predictLoop rules names =
     (case find (\<lambda>(s, ts). spec_matches s ts names) rules of
        None \<Rightarrow> ''unknown'' | Some (s, ts) \<Rightarrow> s)" by simp
  have step: "predictLoop ((s, ts) # rules) names =
      (if spec_matches s ts names then s else predictLoop rules names)"
    unfolding predictLoop.simps Let_def matches_card [OF d] spec_matches_def
    by auto
  show ?case
    unfolding a step using IH by simp
qed

lemma syndromeRules_distinct: "\<forall>(s, ts) \<in> set syndromeRules. distinct ts"
  by (simp add: syndromeRules_def)



subsection \<open>Duplicate symptom names\<close>

text \<open>
  Claim C1 says that duplicate symptom names do not raise the risk score above that of the
  deduplicated report. The scoring loop adds a weight for every occurrence of a name, so the
  claim fails: a report naming \<^verbatim>\<open>fever\<close> twice scores 0.7, its deduplicated version 0.4.
\<close>

theorem duplicate_fever_raises_riskScore:
  "riskScore (analyzeSymptoms defaultService 0 (reportOf [''fever'', ''fever'']) None) = 7 / 10 \<and>
   riskScore (analyzeSymptoms defaultService 0
                (dedupeSymptomNames (reportOf [''fever'', ''fever''])) None) = 4 / 10"
  by code_simp

text \<open>
  Claim C1 as amended: the risk score of a report is never lower than the risk score of the
  report with its symptom names deduplicated, and the two are equal when no name that
  occurs more than once has an entry in the weight table.
\<close>

theorem duplicates_never_lower_riskScore:
  "riskScore (analyzeSymptoms svc rnd (dedupeSymptomNames r) version)
     \<le> riskScore (analyzeSymptoms svc rnd r version) \<and>
   ((\<forall>s \<in> set (symptoms r).
        1 < length (filter (\<lambda>t. toLowerCase (name t) = toLowerCase (name s)) (symptoms r))
          \<longrightarrow> map_of symptomWeightsTable (toLowerCase (name s)) = None) \<longrightarrow>
    riskScore (analyzeSymptoms svc rnd (dedupeSymptomNames r) version)
      = riskScore (analyzeSymptoms svc rnd r version))"
proof (cases "throwsTypeError svc r")
  case True
  then have "throwsTypeError svc (dedupeSymptomNames r)" by (simp add: throws_dedupe)
  with True show ?thesis by (simp add: analyzeSymptoms_throws)
next
  case False
  then have F': "\<not> throwsTypeError svc (dedupeSymptomNames r)" by (simp add: throws_dedupe)
  have v: "vitalSigns (dedupeSymptomNames r) = vitalSigns r"
    and s: "symptoms (dedupeSymptomNames r) = dedupeFrom [] (symptoms r)"
    by (simp_all add: dedupeSymptomNames_def)
  have le: "riskScore (analyzeSymptoms svc rnd (dedupeSymptomNames r) version)
     \<le> riskScore (analyzeSymptoms svc rnd r version)"
    unfolding riskScore_returns [OF False] riskScore_returns [OF F'] v s
    by (intro round3_mono min.mono addVitalSigns_mono add_left_mono dedupeFrom_sum_le order_refl)
  have eq: "riskScore (analyzeSymptoms svc rnd (dedupeSymptomNames r) version)
      = riskScore (analyzeSymptoms svc rnd r version)"
    if h: "\<forall>s \<in> set (symptoms r).
        1 < length (filter (\<lambda>t. lname t = lname s) (symptoms r))
          \<longrightarrow> map_of symptomWeightsTable (lname s) = None"
  proof -
    have "\<forall>s \<in> set (symptoms r). (lname s \<in> set [] \<or>
        1 < length (filter (\<lambda>t. lname t = lname s) (symptoms r))) \<longrightarrow> weightOf (lname s) = 0"
      using h no_entry_weight by auto
    from dedupeFrom_sum_eq [OF this] show ?thesis
      unfolding riskScore_returns [OF False] riskScore_returns [OF F'] v s by simp
  qed
  from le eq show ?thesis by blast
qed

theorem duplicates_never_lower_riskScore_witness:
  "riskScore (analyzeSymptoms defaultService 0
      (dedupeSymptomNames (reportOf [''rash'', ''fever'', ''rash''])) None)
     = riskScore (analyzeSymptoms defaultService 0 (reportOf [''rash'', ''fever'', ''rash'']) None)"
proof -
  have h: "\<forall>s \<in> set (symptoms (reportOf [''rash'', ''fever'', ''rash''])).
        1 < length (filter (\<lambda>t. toLowerCase (name t) = toLowerCase (name s))
                      (symptoms (reportOf [''rash'', ''fever'', ''rash''])))
          \<longrightarrow> map_of symptomWeightsTable (toLowerCase (name s)) = None"
    by code_simp
  from duplicates_never_lower_riskScore
         [of defaultService 0 "reportOf [''rash'', ''fever'', ''rash'']" None] h
  show ?thesis by blast
qed


subsection \<open>The syndrome classifier\<close>

text \<open>
  Claim C3: the classifier evaluates the categories in the order respiratory_infection,
  gastrointestinal, flu, neurological, cardiac and returns the first one with at least two
  of its triggers among the symptom names (cardiac: at least one), and \<^verbatim>\<open>unknown\<close> when
  none matches; \<^verbatim>\<open>chest_pain\<close> alone gives cardiac, \<^verbatim>\<open>nausea\<close> with
  \<^verbatim>\<open>vomiting\<close> gives gastrointestinal.
\<close>

theorem predictSyndrome_first_match:
  "map fst syndromeRules =
     [''respiratory_infection'', ''gastrointestinal'', ''flu'', ''neurological'', ''cardiac''] \<and>
   predictSyndrome symptomNames = spec_classifier symptomNames \<and>
   predictSyndrome [''chest_pain''] = ''cardiac'' \<and>
   predictSyndrome [''nausea'', ''vomiting''] = ''gastrointestinal''"
proof -
  have 1: "map fst syndromeRules =
     [''respiratory_infection'', ''gastrointestinal'', ''flu'', ''neurological'', ''cardiac'']"
    by (simp add: syndromeRules_def)
  have 2: "predictSyndrome symptomNames = spec_classifier symptomNames"
    unfolding predictSyndrome_def spec_classifier_def
    by (rule predictLoop_find [OF syndromeRules_distinct])
  have 3: "predictSyndrome [''chest_pain''] = ''cardiac''" by code_simp
  have 4: "predictSyndrome [''nausea'', ''vomiting''] = ''gastrointestinal''" by code_simp
  show ?thesis using 1 2 3 4 by blast
qed


subsection \<open>Review flagging\<close>

text \<open>
  Claim C6: \<^verbatim>\<open>shouldFlagForReview\<close> returns true exactly when one of the seven predicates
  holds: risk score at least 0.7, confidence below 0.3, at least two symptoms of severity 8
  or more, recent travel or recent exposure, temperature above 103, heart rate above 100,
  oxygen saturation below 95. In particular an oxygen saturation of 90 always flags.
\<close>

theorem shouldFlagForReview_iff:
  "(shouldFlagForReview rs conf r \<longleftrightarrow>
      rs \<ge> 7 / 10 \<or> conf < 3 / 10 \<or>
      length (filter (\<lambda>s. severity s \<ge> 8) (symptoms r)) \<ge> 2 \<or>
      (\<exists>i. additionalInfo r = Some i \<and> (recentTravel i \<or> recentExposure i)) \<or>
      (\<exists>v t. vitalSigns r = Some v \<and> temperature v = Some t \<and> t > 103) \<or>
      (\<exists>v h. vitalSigns r = Some v \<and> heartRate v = Some h \<and> h > 100) \<or>
      (\<exists>v x. vitalSigns r = Some v \<and> oxygenSaturation v = Some x \<and> x < 95)) \<and>
   ((\<exists>v. vitalSigns r = Some v \<and> oxygenSaturation v = Some 90) \<longrightarrow>
      shouldFlagForReview rs conf r)"
  by (auto simp: shouldFlagForReview_def js_gt_def js_lt_def vitalsOrEmpty_def Let_def
           split: option.splits)

theorem shouldFlagForReview_iff_witness:
  "shouldFlagForReview 0 (1 / 2)
     \<lparr>symptoms = [], vitalSigns = Some \<lparr>temperature = None, heartRate = None,
        oxygenSaturation = Some 90\<rparr>, additionalInfo = None\<rparr> \<and>
   \<not> shouldFlagForReview (1 / 10) (1 / 2) (reportOf [''cough''])"
proof -
  have a: "\<exists>v. vitalSigns \<lparr>symptoms = [], vitalSigns = Some \<lparr>temperature = None,
        heartRate = None, oxygenSaturation = Some 90\<rparr>, additionalInfo = None\<rparr> = Some v \<and>
        oxygenSaturation v = Some 90"
    by simp
  have b: "\<not> shouldFlagForReview (1 / 10) (1 / 2) (reportOf [''cough''])"
    using shouldFlagForReview_iff [of "1 / 10" "1 / 2" "reportOf [''cough'']"]
    by (simp add: reportOf_def)
  from shouldFlagForReview_iff [of 0 "1 / 2" "\<lparr>symptoms = [], vitalSigns = Some \<lparr>temperature = None,
        heartRate = None, oxygenSaturation = Some 90\<rparr>, additionalInfo = None\<rparr>"] a b
  show ?thesis by blast
qed


subsection \<open>The additive risk rule\<close>

lemma map_of_tables:
  "map_of symptomWeightsTable k =
     (if k = ''severe_headache'' then Some (2 / 10) else map_of spec_weightTable k)"
  unfolding symptomWeightsTable_def spec_weightTable_def
  by (simp only: map_of.simps fst_conv snd_conv fun_upd_apply) simp

lemma weightOf_amended: "weightOf k = amended_weight k"
  unfolding weightOf_def symptomWeights_def amended_weight_def spec_weight_def map_of_tables
  by (simp split: option.splits)

lemma addVitalSigns_valid:
  "validSymptomRecord r \<Longrightarrow> addVitalSigns (vitalSigns r) x = x + spec_vitalPenalties r"
  by (auto simp: validSymptomRecord_def addVitalSigns_def spec_vitalPenalties_def Let_def
       truthy_def js_gt_def js_lt_def inRange_def split: option.splits)

text \<open>
  Claim C2 gives the risk score as the capped, rounded sum of 0.10, the weights of the
  symptom names from an eleven-entry table (absent names adding 0) and the vital-sign
  penalties. The table in the code has a twelfth entry, \<^verbatim>\<open>severe_headache: 0.2\<close>: a
  valid report with that single symptom scores 0.3, where the claim gives 0.1.
\<close>

theorem severe_headache_has_a_weight:
  "validSymptomRecord (reportOf [''severe_headache'']) \<and>
   distinct (map (\<lambda>s. toLowerCase (name s)) (symptoms (reportOf [''severe_headache'']))) \<and>
   riskScore (analyzeSymptoms defaultService 0 (reportOf [''severe_headache'']) None) = 3 / 10 \<and>
   spec_riskScore (reportOf [''severe_headache'']) = 1 / 10"
  by code_simp

text \<open>
  Claim C2 as amended: for a valid report with pairwise distinct lower-cased symptom names,
  analysed by an initialised service, none of whose lower-cased names is a property of
  \<^verbatim>\<open>Object.prototype\<close>, the risk score is the rule of the claim with the entry
  \<^verbatim>\<open>severe_headache: 0.20\<close> added to the weight table.
\<close>

theorem riskScore_additive_rule:
  "validSymptomRecord r \<and>
   distinct (map (\<lambda>s. toLowerCase (name s)) (symptoms r)) \<and>
   featureEncoder svc \<noteq> None \<and>
   list_all (\<lambda>s. toLowerCase (name s) \<notin> set objectPrototypeKeys) (symptoms r) \<longrightarrow>
   riskScore (analyzeSymptoms svc rnd r version) = amended_riskScore r"
proof (intro impI, elim conjE)
  assume v: "validSymptomRecord r" and enc: "featureEncoder svc \<noteq> None"
    and np: "list_all (\<lambda>s. toLowerCase (name s) \<notin> set objectPrototypeKeys) (symptoms r)"
  have "\<not> throwsTypeError svc r"
    using enc np by (auto simp: throwsTypeError_def list_ex_iff list_all_iff symptomWeights_def
        split: option.splits if_splits)
  from riskScore_returns [OF this]
  show "riskScore (analyzeSymptoms svc rnd r version) = amended_riskScore r"
    unfolding amended_riskScore_def addVitalSigns_valid [OF v] weightOf_amended
    by (simp add: min.commute add.assoc)
qed

theorem riskScore_additive_rule_witness:
  "riskScore (analyzeSymptoms defaultService 0
     \<lparr>symptoms = [\<lparr>name = ''Fever'', severity = 7\<rparr>, \<lparr>name = ''cough'', severity = 3\<rparr>],
      vitalSigns = Some \<lparr>temperature = Some 101, heartRate = Some 88,
        oxygenSaturation = Some 93\<rparr>,
      additionalInfo = None\<rparr> None) = 85 / 100"
proof -
  let ?r = "\<lparr>symptoms = [\<lparr>name = ''Fever'', severity = 7\<rparr>, \<lparr>name = ''cough'', severity = 3\<rparr>],
      vitalSigns = Some \<lparr>temperature = Some 101, heartRate = Some 88,
        oxygenSaturation = Some 93\<rparr>,
      additionalInfo = None\<rparr>"
  have h: "validSymptomRecord ?r \<and>
      distinct (map (\<lambda>s. toLowerCase (name s)) (symptoms ?r)) \<and>
      featureEncoder defaultService \<noteq> None \<and>
      list_all (\<lambda>s. toLowerCase (name s) \<notin> set objectPrototypeKeys) (symptoms ?r)"
    by code_simp
  have v: "amended_riskScore ?r = 85 / 100" by code_simp
  from riskScore_additive_rule [of ?r defaultService 0 None] h v show ?thesis by simp
qed


subsection \<open>Recommendations\<close>

lemma if_chain4:
  "(if a then x else if b then y else if c then z else w) = x \<or>
   (if a then x else if b then y else if c then z else w) = y \<or>
   (if a then x else if b then y else if c then z else w) = z \<or>
   (if a then x else if b then y else if c then z else w) = w"
  by simp

lemma if_append2:
  "(if a then x else []) @ (if b then y else []) = [] \<or>
   (if a then x else []) @ (if b then y else []) = x \<or>
   (if a then x else []) @ (if b then y else []) = y \<or>
   (if a then x else []) @ (if b then y else []) = x @ y"
  by simp

lemma riskRecommendations_cases:
  "riskRecommendations rs =
     [''Seek immediate medical attention'', ''Consider emergency room visit''] \<or>
   riskRecommendations rs =
     [''Schedule urgent appointment with healthcare provider'', ''Monitor symptoms closely''] \<or>
   riskRecommendations rs =
     [''Schedule routine appointment with healthcare provider'',
      ''Continue monitoring symptoms''] \<or>
   riskRecommendations rs =
     [''Continue self-care and monitoring'', ''Seek medical attention if symptoms worsen'']"
  unfolding riskRecommendations_def by (rule if_chain4)

lemma syndromeRecommendations_cases:
  "syndromeRecommendations syndrome =
      [''Rest and stay hydrated'', ''Use humidifier if available'',
       ''Avoid close contact with others''] \<or>
   syndromeRecommendations syndrome =
      [''Maintain hydration'', ''Follow BRAT diet (bananas, rice, applesauce, toast)'',
       ''Avoid dairy and fatty foods''] \<or>
   syndromeRecommendations syndrome =
      [''Monitor temperature regularly'', ''Stay hydrated'',
       ''Use fever-reducing medications as directed''] \<or>
   syndromeRecommendations syndrome = [''Follow general illness care guidelines'']"
  unfolding syndromeRecommendations_def Let_def by (rule if_chain4)

lemma symptomRecommendations_cases:
  "symptomRecommendations r = [] \<or>
   symptomRecommendations r = [''Monitor temperature every 4 hours''] \<or>
   symptomRecommendations r =
     [''Use cough suppressants as needed'', ''Avoid irritants like smoke''] \<or>
   symptomRecommendations r =
     [''Monitor temperature every 4 hours''] @
     [''Use cough suppressants as needed'', ''Avoid irritants like smoke'']"
  unfolding symptomRecommendations_def Let_def by (rule if_append2)

lemma riskRecommendations_length: "length (riskRecommendations rs) = 2"
  using riskRecommendations_cases [of rs] by (elim disjE) (simp_all only: list.size length_Cons One_nat_def numeral_2_eq_2)

lemma syndromeRecommendations_no_tier:
  "list_all (\<lambda>l. l \<notin> set tierLines) (syndromeRecommendations syndrome)"
proof -
  have a: "list_all (\<lambda>l. l \<notin> set tierLines)
      [''Rest and stay hydrated'', ''Use humidifier if available'',
       ''Avoid close contact with others'']" by code_simp
  have b: "list_all (\<lambda>l. l \<notin> set tierLines)
      [''Maintain hydration'', ''Follow BRAT diet (bananas, rice, applesauce, toast)'',
       ''Avoid dairy and fatty foods'']" by code_simp
  have c: "list_all (\<lambda>l. l \<notin> set tierLines)
      [''Monitor temperature regularly'', ''Stay hydrated'',
       ''Use fever-reducing medications as directed'']" by code_simp
  have d: "list_all (\<lambda>l. l \<notin> set tierLines) [''Follow general illness care guidelines'']"
    by code_simp
  from syndromeRecommendations_cases [of syndrome] show ?thesis
    by (elim disjE) (simp_all only: a b c d)
qed

lemma symptomRecommendations_no_tier:
  "list_all (\<lambda>l. l \<notin> set tierLines) (symptomRecommendations r)"
proof -
  have a: "list_all (\<lambda>l. l \<notin> set tierLines) []" by simp
  have b: "list_all (\<lambda>l. l \<notin> set tierLines) [''Monitor temperature every 4 hours'']"
    by code_simp
  have c: "list_all (\<lambda>l. l \<notin> set tierLines)
     [''Use cough suppressants as needed'', ''Avoid irritants like smoke'']" by code_simp
  have d: "list_all (\<lambda>l. l \<notin> set tierLines)
     ([''Monitor temperature every 4 hours''] @
      [''Use cough suppressants as needed'', ''Avoid irritants like smoke''])"
    using b c by (simp only: list_all_append)
  from symptomRecommendations_cases [of r] show ?thesis
    by (elim disjE) (simp_all only: a b c d)
qed

lemma take_riskRecommendations:
  "take 2 (generateRecommendations rs syndrome r) = riskRecommendations rs"
  unfolding generateRecommendations_def using riskRecommendations_length [of rs] by simp

lemma drop_riskRecommendations:
  "drop 2 (generateRecommendations rs syndrome r) =
     syndromeRecommendations syndrome @ symptomRecommendations r"
  unfolding generateRecommendations_def using riskRecommendations_length [of rs] by simp

text \<open>
  Claim C7: \<^verbatim>\<open>generateRecommendations\<close> returns a non-empty list whose first two lines
  are the block of exactly one risk tier, chosen by the boundaries 0.8, 0.6 and 0.4; no line
  of a tier block occurs further down the list; for a risk score of 0.85 the list starts
  with the immediate-attention and emergency-room lines.
\<close>

theorem generateRecommendations_tier_block:
  "generateRecommendations rs syndrome r \<noteq> [] \<and>
   take 2 (generateRecommendations rs syndrome r) =
     (if rs \<ge> 8 / 10 then
        [''Seek immediate medical attention'', ''Consider emergency room visit'']
      else if rs \<ge> 6 / 10 then
        [''Schedule urgent appointment with healthcare provider'', ''Monitor symptoms closely'']
      else if rs \<ge> 4 / 10 then
        [''Schedule routine appointment with healthcare provider'',
         ''Continue monitoring symptoms'']
      else
        [''Continue self-care and monitoring'', ''Seek medical attention if symptoms worsen'']) \<and>
   list_all (\<lambda>l. l \<notin> set tierLines) (drop 2 (generateRecommendations rs syndrome r)) \<and>
   take 2 (generateRecommendations (85 / 100) syndrome r) =
     [''Seek immediate medical attention'', ''Consider emergency room visit'']"
proof -
  have 1: "generateRecommendations rs syndrome r \<noteq> []"
    using take_riskRecommendations [of rs syndrome r] riskRecommendations_length [of rs]
    by (metis take_eq_Nil list.size(3) zero_neq_numeral)
  have 2: "take 2 (generateRecommendations rs syndrome r) =
     (if rs \<ge> 8 / 10 then
        [''Seek immediate medical attention'', ''Consider emergency room visit'']
      else if rs \<ge> 6 / 10 then
        [''Schedule urgent appointment with healthcare provider'', ''Monitor symptoms closely'']
      else if rs \<ge> 4 / 10 then
        [''Schedule routine appointment with healthcare provider'',
         ''Continue monitoring symptoms'']
      else
        [''Continue self-care and monitoring'', ''Seek medical attention if symptoms worsen''])"
    unfolding take_riskRecommendations riskRecommendations_def ..
  have 3: "list_all (\<lambda>l. l \<notin> set tierLines) (drop 2 (generateRecommendations rs syndrome r))"
    unfolding drop_riskRecommendations list_all_append
    using syndromeRecommendations_no_tier symptomRecommendations_no_tier by blast
  have c: "(85 / 100 :: rat) \<ge> 8 / 10" by simp
  have 4: "take 2 (generateRecommendations (85 / 100) syndrome r) =
     [''Seek immediate medical attention'', ''Consider emergency room visit'']"
    unfolding take_riskRecommendations riskRecommendations_def using c by (simp only: if_True)
  from 1 2 3 4 show ?thesis by blast
qed

lemma predictLoop_range:
  "predictLoop rules names \<in> insert ''unknown'' (fst ` set rules)"
  by (induction rules names rule: predictLoop.induct) (auto simp: Let_def)

lemma syndromeRules_names:
  "fst ` set syndromeRules =
    {''respiratory_infection'', ''gastrointestinal'', ''flu'', ''neurological'', ''cardiac''}"
  unfolding syndromeRules_def by (simp only: list.set image_insert fst_conv image_empty)

lemma predictSyndrome_range:
  "predictSyndrome names \<in>
     {''unknown'', ''respiratory_infection'', ''gastrointestinal'', ''flu'', ''neurological'',
      ''cardiac''}"
  using predictLoop_range [of syndromeRules names]
  unfolding predictSyndrome_def syndromeRules_names .

lemma syndromeRecommendations_outputs:
  "syndromeRecommendations ''unknown'' = [''Follow general illness care guidelines'']"
  "syndromeRecommendations ''respiratory_infection'' = [''Follow general illness care guidelines'']"
  "syndromeRecommendations ''flu'' = [''Follow general illness care guidelines'']"
  "syndromeRecommendations ''neurological'' = [''Follow general illness care guidelines'']"
  "syndromeRecommendations ''cardiac'' = [''Follow general illness care guidelines'']"
  "syndromeRecommendations ''gastrointestinal'' =
     [''Maintain hydration'', ''Follow BRAT diet (bananas, rice, applesauce, toast)'',
      ''Avoid dairy and fatty foods'']"
  by code_simp+

lemma syndromeRecommendations_predicted:
  "syndromeRecommendations (predictSyndrome names) =
     (if predictSyndrome names = ''gastrointestinal''
      then [''Maintain hydration'', ''Follow BRAT diet (bananas, rice, applesauce, toast)'',
            ''Avoid dairy and fatty foods'']
      else [''Follow general illness care guidelines''])"
proof -
  have ne: "''unknown'' \<noteq> ''gastrointestinal''" "''respiratory_infection'' \<noteq> ''gastrointestinal''"
    "''flu'' \<noteq> ''gastrointestinal''" "''neurological'' \<noteq> ''gastrointestinal''"
    "''cardiac'' \<noteq> ''gastrointestinal''" by simp_all
  from predictSyndrome_range [of names]
  consider "predictSyndrome names = ''unknown''"
    | "predictSyndrome names = ''respiratory_infection''"
    | "predictSyndrome names = ''gastrointestinal''"
    | "predictSyndrome names = ''flu''"
    | "predictSyndrome names = ''neurological''"
    | "predictSyndrome names = ''cardiac''"
    by blast
  then show ?thesis
    by cases (simp_all only: syndromeRecommendations_outputs ne if_True if_False simp_thms)
qed

lemma reachable_no_unreachable:
  "list_all (\<lambda>l. l \<notin> set unreachableLines) (riskRecommendations rs)"
  "list_all (\<lambda>l. l \<notin> set unreachableLines) (syndromeRecommendations (predictSyndrome names))"
  "list_all (\<lambda>l. l \<notin> set unreachableLines) (symptomRecommendations r)"
  "list_all (\<lambda>l. l \<notin> set unreachableLines) (recommendations fallbackAnalysis)"
proof -
  have r1: "list_all (\<lambda>l. l \<notin> set unreachableLines)
     [''Seek immediate medical attention'', ''Consider emergency room visit'']" by code_simp
  have r2: "list_all (\<lambda>l. l \<notin> set unreachableLines)
     [''Schedule urgent appointment with healthcare provider'', ''Monitor symptoms closely'']"
    by code_simp
  have r3: "list_all (\<lambda>l. l \<notin> set unreachableLines)
     [''Schedule routine appointment with healthcare provider'',
      ''Continue monitoring symptoms'']" by code_simp
  have r4: "list_all (\<lambda>l. l \<notin> set unreachableLines)
     [''Continue self-care and monitoring'', ''Seek medical attention if symptoms worsen'']"
    by code_simp
  from riskRecommendations_cases [of rs]
  show "list_all (\<lambda>l. l \<notin> set unreachableLines) (riskRecommendations rs)"
    by (elim disjE) (simp_all only: r1 r2 r3 r4)
  have g: "list_all (\<lambda>l. l \<notin> set unreachableLines)
     [''Maintain hydration'', ''Follow BRAT diet (bananas, rice, applesauce, toast)'',
      ''Avoid dairy and fatty foods'']" by code_simp
  have f: "list_all (\<lambda>l. l \<notin> set unreachableLines) [''Follow general illness care guidelines'']"
    by code_simp
  show "list_all (\<lambda>l. l \<notin> set unreachableLines)
      (syndromeRecommendations (predictSyndrome names))"
    unfolding syndromeRecommendations_predicted
    by (cases "predictSyndrome names = ''gastrointestinal''") (simp_all only: g f if_True if_False simp_thms)
  have a: "list_all (\<lambda>l. l \<notin> set unreachableLines) []" by simp
  have b: "list_all (\<lambda>l. l \<notin> set unreachableLines) [''Monitor temperature every 4 hours'']"
    by code_simp
  have c: "list_all (\<lambda>l. l \<notin> set unreachableLines)
     [''Use cough suppressants as needed'', ''Avoid irritants like smoke'']" by code_simp
  have d: "list_all (\<lambda>l. l \<notin> set unreachableLines)
     ([''Monitor temperature every 4 hours''] @
      [''Use cough suppressants as needed'', ''Avoid irritants like smoke''])"
    using b c by (simp only: list_all_append)
  from symptomRecommendations_cases [of r]
  show "list_all (\<lambda>l. l \<notin> set unreachableLines) (symptomRecommendations r)"
    by (elim disjE) (simp_all only: a b c d)
  show "list_all (\<lambda>l. l \<notin> set unreachableLines) (recommendations fallbackAnalysis)"
    by code_simp
qed

lemma analyzeSymptoms_recommendations:
  "recommendations (analyzeSymptoms svc rnd r version) = recommendations fallbackAnalysis \<or>
   (\<exists>rs. recommendations (analyzeSymptoms svc rnd r version) =
      generateRecommendations rs (predictSyndrome (map (\<lambda>s. toLowerCase (name s)) (symptoms r))) r)"
proof (cases "throwsTypeError svc r")
  case True
  then show ?thesis by (simp only: analyzeSymptoms_throws simp_thms)
next
  case False
  then show ?thesis
    unfolding analyzeSymptoms_returns [OF False] Let_def
    by (simp only: analysisResult.simps) blast
qed

text \<open>
  Claim C10: the classifier only produces the six strings \<^verbatim>\<open>unknown\<close>,
  \<^verbatim>\<open>respiratory_infection\<close>, \<^verbatim>\<open>gastrointestinal\<close>, \<^verbatim>\<open>flu\<close>,
  \<^verbatim>\<open>neurological\<close> and \<^verbatim>\<open>cardiac\<close>; for each of them other than
  \<^verbatim>\<open>gastrointestinal\<close>, and for \<^verbatim>\<open>respiratory_infection\<close> in particular, the
  syndrome block is the single generic line; no line of the respiratory-infection block or
  of the fever block occurs in the recommendations of any analysis.
\<close>

theorem syndrome_block_is_generic_fallback:
  "predictSyndrome names \<in>
     {''unknown'', ''respiratory_infection'', ''gastrointestinal'', ''flu'', ''neurological'',
      ''cardiac''} \<and>
   syndromeRecommendations ''respiratory_infection'' = [''Follow general illness care guidelines''] \<and>
   (predictSyndrome names \<noteq> ''gastrointestinal'' \<longrightarrow>
      generateRecommendations rs (predictSyndrome names) r =
        riskRecommendations rs @ [''Follow general illness care guidelines''] @
        symptomRecommendations r) \<and>
   list_all (\<lambda>l. l \<notin> set unreachableLines)
     (recommendations (analyzeSymptoms svc rnd rec version))"
proof -
  have 3: "predictSyndrome names \<noteq> ''gastrointestinal'' \<longrightarrow>
      generateRecommendations rs (predictSyndrome names) r =
        riskRecommendations rs @ [''Follow general illness care guidelines''] @
        symptomRecommendations r"
    unfolding generateRecommendations_def syndromeRecommendations_predicted by simp
  have 4: "list_all (\<lambda>l. l \<notin> set unreachableLines)
     (recommendations (analyzeSymptoms svc rnd rec version))"
    using analyzeSymptoms_recommendations [of svc rnd rec version]
  proof
    assume "recommendations (analyzeSymptoms svc rnd rec version) = recommendations fallbackAnalysis"
    then show ?thesis by (simp only: reachable_no_unreachable)
  next
    assume "\<exists>rs. recommendations (analyzeSymptoms svc rnd rec version) =
      generateRecommendations rs (predictSyndrome (map (\<lambda>s. toLowerCase (name s)) (symptoms rec))) rec"
    then obtain x where "recommendations (analyzeSymptoms svc rnd rec version) =
      generateRecommendations x (predictSyndrome (map (\<lambda>s. toLowerCase (name s)) (symptoms rec))) rec"
      by blast
    then show ?thesis
      unfolding generateRecommendations_def
      by (simp only: list_all_append reachable_no_unreachable simp_thms)
  qed
  from predictSyndrome_range [of names] syndromeRecommendations_outputs(2) 3 4
  show ?thesis by blast
qed

theorem syndrome_block_is_generic_fallback_witness:
  "predictSyndrome [''fever'', ''cough''] = ''respiratory_infection'' \<and>
   generateRecommendations (1 / 10) (predictSyndrome [''fever'', ''cough''])
       (reportOf [''fever'', ''cough'']) =
     [''Continue self-care and monitoring'', ''Seek medical attention if symptoms worsen'',
      ''Follow general illness care guidelines'', ''Monitor temperature every 4 hours'',
      ''Use cough suppressants as needed'', ''Avoid irritants like smoke'']"
proof -
  have p: "predictSyndrome [''fever'', ''cough''] = ''respiratory_infection''" by code_simp
  have ne: "predictSyndrome [''fever'', ''cough''] \<noteq> ''gastrointestinal''"
    unfolding p by simp
  have e: "riskRecommendations (1 / 10) @ [''Follow general illness care guidelines''] @
      symptomRecommendations (reportOf [''fever'', ''cough'']) =
     [''Continue self-care and monitoring'', ''Seek medical attention if symptoms worsen'',
      ''Follow general illness care guidelines'', ''Monitor temperature every 4 hours'',
      ''Use cough suppressants as needed'', ''Avoid irritants like smoke'']"
    by code_simp
  from syndrome_block_is_generic_fallback
         [of "[''fever'', ''cough'']" "1 / 10" "reportOf [''fever'', ''cough'']"] ne
  have "generateRecommendations (1 / 10) (predictSyndrome [''fever'', ''cough''])
       (reportOf [''fever'', ''cough'']) =
     riskRecommendations (1 / 10) @ [''Follow general illness care guidelines''] @
      symptomRecommendations (reportOf [''fever'', ''cough''])"
    by blast
  with e p show ?thesis by (simp only: simp_thms)
qed


subsection \<open>Bounds and determinism\<close>

lemma capped_bounds:
  "0 \<le> min (addVitalSigns vs (1 / 10 + sum_list (map weightOf ns))) 1"
  "min (addVitalSigns vs (1 / 10 + sum_list (map weightOf ns))) 1 \<le> 1"
proof -
  have "(0::rat) \<le> 1 / 10 + sum_list (map weightOf ns)"
    using sum_weights_nonneg [of ns] by simp
  also have "\<dots> \<le> addVitalSigns vs (1 / 10 + sum_list (map weightOf ns))"
    by (rule addVitalSigns_ge)
  finally show "0 \<le> min (addVitalSigns vs (1 / 10 + sum_list (map weightOf ns))) 1"
    by simp
  show "min (addVitalSigns vs (1 / 10 + sum_list (map weightOf ns))) 1 \<le> 1" by simp
qed

lemma confidence_bounds:
  assumes "0 \<le> rnd" "rnd < 1"
  shows "6 / 10 \<le> round3 (6 / 10 + rnd * (3 / 10))" "round3 (6 / 10 + rnd * (3 / 10)) \<le> 9 / 10"
proof -
  have a: "round3 (6 / 10) = 6 / 10" by code_simp
  have b: "round3 (9 / 10) = 9 / 10" by code_simp
  have "6 / 10 \<le> 6 / 10 + rnd * (3 / 10)" using assms by simp
  from round3_mono [OF this] a show "6 / 10 \<le> round3 (6 / 10 + rnd * (3 / 10))" by simp
  have "6 / 10 + rnd * (3 / 10) \<le> 9 / 10" using assms by simp
  from round3_mono [OF this] b show "round3 (6 / 10 + rnd * (3 / 10)) \<le> 9 / 10" by simp
qed

text \<open>
  Claim C8: the risk score and the confidence of every analysis result lie between 0 and 1.
  \<open>rnd\<close> is the draw of \<^verbatim>\<open>Math.random()\<close>, a number in \<open>[0, 1)\<close>; the bounds
  hold for every record, valid or not, and in the error fallback as well.
\<close>

theorem analysis_scores_in_unit_interval:
  "0 \<le> rnd \<and> rnd < 1 \<longrightarrow>
   0 \<le> riskScore (analyzeSymptoms svc rnd r version) \<and>
   riskScore (analyzeSymptoms svc rnd r version) \<le> 1 \<and>
   0 \<le> confidence (analyzeSymptoms svc rnd r version) \<and>
   confidence (analyzeSymptoms svc rnd r version) \<le> 1"
proof (intro impI, elim conjE)
  assume rnd: "0 \<le> rnd" "rnd < 1"
  show "0 \<le> riskScore (analyzeSymptoms svc rnd r version) \<and>
   riskScore (analyzeSymptoms svc rnd r version) \<le> 1 \<and>
   0 \<le> confidence (analyzeSymptoms svc rnd r version) \<and>
   confidence (analyzeSymptoms svc rnd r version) \<le> 1"
  proof (cases "throwsTypeError svc r")
    case True
    then show ?thesis by (simp add: analyzeSymptoms_throws fallbackAnalysis_def)
  next
    case False
    have c: "confidence (analyzeSymptoms svc rnd r version) = round3 (6 / 10 + rnd * (3 / 10))"
      by (simp add: analyzeSymptoms_returns [OF False] Let_def)
    have rs: "riskScore (analyzeSymptoms svc rnd r version) =
       round3 (min (addVitalSigns (vitalSigns r)
          (1 / 10 + sum_list (map weightOf (map (\<lambda>s. toLowerCase (name s)) (symptoms r))))) 1)"
      by (simp add: analyzeSymptoms_returns [OF False] Let_def)
    have 1: "0 \<le> riskScore (analyzeSymptoms svc rnd r version)"
      unfolding rs by (rule round3_nonneg) (rule capped_bounds)
    have 2: "riskScore (analyzeSymptoms svc rnd r version) \<le> 1"
      unfolding rs by (rule round3_le_1) (rule capped_bounds)
    from confidence_bounds [OF rnd] have 3: "0 \<le> confidence (analyzeSymptoms svc rnd r version)"
      and 4: "confidence (analyzeSymptoms svc rnd r version) \<le> 1"
      unfolding c by simp_all
    from 1 2 3 4 show ?thesis by blast
  qed
qed

theorem analysis_scores_in_unit_interval_witness:
  "0 \<le> riskScore (analyzeSymptoms defaultService (1 / 2) (reportOf [''fever'', ''chest_pain'']) None) \<and>
   riskScore (analyzeSymptoms defaultService (1 / 2) (reportOf [''fever'', ''chest_pain'']) None) \<le> 1 \<and>
   0 \<le> confidence (analyzeSymptoms defaultService (1 / 2) (reportOf [''fever'', ''chest_pain'']) None) \<and>
   confidence (analyzeSymptoms defaultService (1 / 2) (reportOf [''fever'', ''chest_pain'']) None) \<le> 1"
  using analysis_scores_in_unit_interval
          [of "1 / 2" defaultService "reportOf [''fever'', ''chest_pain'']" None]
  by simp

lemma shouldFlag_confidence:
  "\<not> c1 < 3 / 10 \<Longrightarrow> \<not> c2 < 3 / 10 \<Longrightarrow>
   shouldFlagForReview rs c1 r = shouldFlagForReview rs c2 r"
  by (simp add: shouldFlagForReview_def)

text \<open>
  Claim C9 says that two invocations on the same report return equal results, the confidence
  included. The confidence is \<^verbatim>\<open>0.6 + Math.random() * 0.3\<close>: with the draws 0 and 1/2 the
  same report gets the confidences 0.6 and 0.75.
\<close>

theorem confidence_depends_on_random_draw:
  "confidence (analyzeSymptoms defaultService 0 (reportOf [''fever'']) None) = 6 / 10 \<and>
   confidence (analyzeSymptoms defaultService (1 / 2) (reportOf [''fever'']) None) = 3 / 4 \<and>
   analyzeSymptoms defaultService 0 (reportOf [''fever'']) None
     \<noteq> analyzeSymptoms defaultService (1 / 2) (reportOf [''fever'']) None"
proof -
  have a: "confidence (analyzeSymptoms defaultService 0 (reportOf [''fever'']) None) = 6 / 10"
    by code_simp
  have b: "confidence (analyzeSymptoms defaultService (1 / 2) (reportOf [''fever'']) None) = 3 / 4"
    by code_simp
  have "confidence (analyzeSymptoms defaultService 0 (reportOf [''fever'']) None)
     \<noteq> confidence (analyzeSymptoms defaultService (1 / 2) (reportOf [''fever'']) None)"
    unfolding a b by simp
  then have "analyzeSymptoms defaultService 0 (reportOf [''fever'']) None
     \<noteq> analyzeSymptoms defaultService (1 / 2) (reportOf [''fever'']) None"
    by metis
  with a b show ?thesis by blast
qed

text \<open>
  Claim C9 as amended: two invocations on the same report with the same service state return
  the same risk score, predicted syndrome, recommendations and review flag, whatever the
  random draws of the two invocations are. The confidence depends on the draw; it lies
  between 0.6 and 0.9, and it is 0 in the error fallback.
\<close>

theorem analysis_deterministic_except_confidence:
  "0 \<le> rnd1 \<and> rnd1 < 1 \<and> 0 \<le> rnd2 \<and> rnd2 < 1 \<longrightarrow>
   riskScore (analyzeSymptoms svc rnd1 r version) = riskScore (analyzeSymptoms svc rnd2 r version) \<and>
   predictedSyndrome (analyzeSymptoms svc rnd1 r version)
     = predictedSyndrome (analyzeSymptoms svc rnd2 r version) \<and>
   recommendations (analyzeSymptoms svc rnd1 r version)
     = recommendations (analyzeSymptoms svc rnd2 r version) \<and>
   flaggedForReview (analyzeSymptoms svc rnd1 r version)
     = flaggedForReview (analyzeSymptoms svc rnd2 r version) \<and>
   (if throwsTypeError svc r
    then confidence (analyzeSymptoms svc rnd1 r version) = 0 \<and>
         confidence (analyzeSymptoms svc rnd2 r version) = 0
    else 6 / 10 \<le> confidence (analyzeSymptoms svc rnd1 r version) \<and>
         confidence (analyzeSymptoms svc rnd1 r version) \<le> 9 / 10 \<and>
         6 / 10 \<le> confidence (analyzeSymptoms svc rnd2 r version) \<and>
         confidence (analyzeSymptoms svc rnd2 r version) \<le> 9 / 10)"
proof (intro impI, elim conjE)
  assume rnd: "0 \<le> rnd1" "rnd1 < 1" "0 \<le> rnd2" "rnd2 < 1"
  show "riskScore (analyzeSymptoms svc rnd1 r version) = riskScore (analyzeSymptoms svc rnd2 r version) \<and>
   predictedSyndrome (analyzeSymptoms svc rnd1 r version)
     = predictedSyndrome (analyzeSymptoms svc rnd2 r version) \<and>
   recommendations (analyzeSymptoms svc rnd1 r version)
     = recommendations (analyzeSymptoms svc rnd2 r version) \<and>
   flaggedForReview (analyzeSymptoms svc rnd1 r version)
     = flaggedForReview (analyzeSymptoms svc rnd2 r version) \<and>
   (if throwsTypeError svc r
    then confidence (analyzeSymptoms svc rnd1 r version) = 0 \<and>
         confidence (analyzeSymptoms svc rnd2 r version) = 0
    else 6 / 10 \<le> confidence (analyzeSymptoms svc rnd1 r version) \<and>
         confidence (analyzeSymptoms svc rnd1 r version) \<le> 9 / 10 \<and>
         6 / 10 \<le> confidence (analyzeSymptoms svc rnd2 r version) \<and>
         confidence (analyzeSymptoms svc rnd2 r version) \<le> 9 / 10)"
  proof (cases "throwsTypeError svc r")
    case True
    then show ?thesis by (simp add: analyzeSymptoms_throws fallbackAnalysis_def)
  next
    case False
    have n1: "\<not> 6 / 10 + rnd1 * (3 / 10) < 3 / 10" using rnd by simp
    have n2: "\<not> 6 / 10 + rnd2 * (3 / 10) < 3 / 10" using rnd by simp
    have fl: "flaggedForReview (analyzeSymptoms svc rnd1 r version)
       = flaggedForReview (analyzeSymptoms svc rnd2 r version)"
      unfolding analyzeSymptoms_returns [OF False] Let_def
      using shouldFlag_confidence [OF n1 n2] by simp
    have others: "riskScore (analyzeSymptoms svc rnd1 r version) = riskScore (analyzeSymptoms svc rnd2 r version)"
      "predictedSyndrome (analyzeSymptoms svc rnd1 r version)
         = predictedSyndrome (analyzeSymptoms svc rnd2 r version)"
      "recommendations (analyzeSymptoms svc rnd1 r version)
         = recommendations (analyzeSymptoms svc rnd2 r version)"
      unfolding analyzeSymptoms_returns [OF False] Let_def by simp_all
    have c: "confidence (analyzeSymptoms svc rnd1 r version) = round3 (6 / 10 + rnd1 * (3 / 10))"
      "confidence (analyzeSymptoms svc rnd2 r version) = round3 (6 / 10 + rnd2 * (3 / 10))"
      unfolding analyzeSymptoms_returns [OF False] Let_def by simp_all
    from confidence_bounds [OF rnd(1,2)] confidence_bounds [OF rnd(3,4)] others fl False
    show ?thesis unfolding c by simp
  qed
qed

theorem analysis_deterministic_except_confidence_witness:
  "riskScore (analyzeSymptoms defaultService 0 (reportOf [''fever'']) None)
     = riskScore (analyzeSymptoms defaultService (1 / 2) (reportOf [''fever'']) None) \<and>
   recommendations (analyzeSymptoms defaultService 0 (reportOf [''fever'']) None)
     = recommendations (analyzeSymptoms defaultService (1 / 2) (reportOf [''fever'']) None) \<and>
   flaggedForReview (analyzeSymptoms defaultService 0 (reportOf [''fever'']) None)
     = flaggedForReview (analyzeSymptoms defaultService (1 / 2) (reportOf [''fever'']) None) \<and>
   6 / 10 \<le> confidence (analyzeSymptoms defaultService (1 / 2) (reportOf [''fever'']) None) \<and>
   confidence (analyzeSymptoms defaultService (1 / 2) (reportOf [''fever'']) None) \<le> 9 / 10"
proof -
  have n: "\<not> throwsTypeError defaultService (reportOf [''fever''])" by code_simp
  from analysis_deterministic_except_confidence
         [of 0 "1 / 2" defaultService "reportOf [''fever'']" None] n
  show ?thesis by simp
qed


section \<open>Properties of outbreak detection\<close>

subsection \<open>At most one active outbreak per disease and location\<close>

lemma findOneActive_None:
  "findOneActive (fst k) (snd k) obs = None \<longleftrightarrow> \<not> hasActive (storedKey k) obs"
  by (auto simp: findOneActive_def hasActive_def outbreakKey_def storedKey_def find_None_iff
      list_ex_iff prod_eq_iff)

lemma findOneActive_Some:
  "hasActive (storedKey k) obs \<Longrightarrow> \<exists>e. findOneActive (fst k) (snd k) obs = Some e"
  using findOneActive_None [of k obs] by (cases "findOneActive (fst k) (snd k) obs") auto

lemma newOutbreak_key: "outbreakKey (newOutbreak thr tw g) = storedKey (group_id g)"
  by (simp add: outbreakKey_def newOutbreak_def storedKey_def)

lemma newOutbreak_active: "isActive (newOutbreak thr tw g)"
  by (simp add: newOutbreak_def)

lemma save_cases:
  "save ob obs = Inl ValidationError \<or> save ob obs = Inr (obs @ [ob])"
  by (simp add: save_def)

lemma hasActive_append:
  "hasActive k (obs @ [ob]) \<longleftrightarrow> hasActive k obs \<or> (isActive ob \<and> outbreakKey ob = k)"
  by (auto simp: hasActive_def list_ex_iff)

lemma detectLoop_keeps_pair:
  "hasActive k obs \<Longrightarrow>
   filter (\<lambda>ob. outbreakKey ob = k) (fst (detectLoop thr tw gs obs acc))
     = filter (\<lambda>ob. outbreakKey ob = k) obs"
proof (induction gs arbitrary: obs acc)
  case Nil
  then show ?case by simp
next
  case (Cons g gs)
  show ?case
  proof (cases "hasActive (storedKey (group_id g)) obs")
    case True
    from findOneActive_Some [OF this]
    obtain e where "findOneActive (fst (group_id g)) (snd (group_id g)) obs = Some e" ..
    then show ?thesis using Cons.IH [OF Cons.prems] by simp
  next
    case False
    then have none: "findOneActive (fst (group_id g)) (snd (group_id g)) obs = None"
      by (simp add: findOneActive_None)
    from False Cons.prems have ne: "storedKey (group_id g) \<noteq> k" by auto
    from save_cases [of "newOutbreak thr tw g" obs] show ?thesis
    proof
      assume "save (newOutbreak thr tw g) obs = Inl ValidationError"
      then show ?thesis using none by simp
    next
      assume s: "save (newOutbreak thr tw g) obs = Inr (obs @ [newOutbreak thr tw g])"
      have h: "hasActive k (obs @ [newOutbreak thr tw g])"
        using Cons.prems by (simp add: hasActive_append)
      show ?thesis
        using none s Cons.IH [OF h] ne by (simp add: newOutbreak_key)
    qed
  qed
qed

lemma detectLoop_invariant:
  "atMostOneActive obs \<Longrightarrow> atMostOneActive (fst (detectLoop thr tw gs obs acc))"
proof (induction gs arbitrary: obs acc)
  case Nil
  then show ?case by simp
next
  case (Cons g gs)
  show ?case
  proof (cases "hasActive (storedKey (group_id g)) obs")
    case True
    from findOneActive_Some [OF this]
    obtain e where "findOneActive (fst (group_id g)) (snd (group_id g)) obs = Some e" ..
    then show ?thesis using Cons.IH [OF Cons.prems] by simp
  next
    case False
    then have none: "findOneActive (fst (group_id g)) (snd (group_id g)) obs = None"
      by (simp add: findOneActive_None)
    from save_cases [of "newOutbreak thr tw g" obs] show ?thesis
    proof
      assume "save (newOutbreak thr tw g) obs = Inl ValidationError"
      then show ?thesis using none Cons.prems by simp
    next
      assume s: "save (newOutbreak thr tw g) obs = Inr (obs @ [newOutbreak thr tw g])"
      have "storedKey (group_id g) \<notin> outbreakKey ` set (filter isActive obs)"
        using False by (auto simp: hasActive_def list_ex_iff)
      then have h: "atMostOneActive (obs @ [newOutbreak thr tw g])"
        using Cons.prems by (simp add: atMostOneActive_def newOutbreak_key newOutbreak_active)
      show ?thesis
        using none s Cons.IH [OF h] by simp
    qed
  qed
qed

lemma detect_outbreaks:
  "diseaseOutbreaks (fst (detectNewOutbreaks thr tw start db)) =
     fst (detectLoop thr tw (potentialOutbreaks thr start (diseaseCases db))
            (diseaseOutbreaks db) [])"
  by (simp add: detectNewOutbreaks_def Let_def split: prod.splits)

lemma detect_invariant:
  "atMostOneActive (diseaseOutbreaks db) \<Longrightarrow>
   atMostOneActive (diseaseOutbreaks (fst (detectNewOutbreaks thr tw start db)))"
  unfolding detect_outbreaks by (rule detectLoop_invariant)

lemma runDetections_invariant:
  "atMostOneActive (diseaseOutbreaks db) \<Longrightarrow>
   atMostOneActive (diseaseOutbreaks (runDetections runs db))"
proof (induction runs arbitrary: db)
  case Nil
  then show ?case by simp
next
  case (Cons a runs)
  obtain thr tw start where a: "a = (thr, tw, start)" by (cases a)
  show ?case unfolding a runDetections.simps
    by (rule Cons.IH) (rule detect_invariant [OF Cons.prems])
qed

text \<open>
  Claim C4: when the database already holds an active outbreak for a (diseaseName, location)
  pair, a run of \<^verbatim>\<open>detectNewOutbreaks\<close> leaves the outbreak records of that pair as they
  are; a run, and hence every sequence of runs, preserves the invariant that each pair has
  at most one active outbreak. The runs are sequential: one completes before the next starts.
\<close>

theorem detection_keeps_one_active_outbreak:
  "(hasActive k (diseaseOutbreaks db) \<longrightarrow>
      filter (\<lambda>ob. outbreakKey ob = k)
          (diseaseOutbreaks (fst (detectNewOutbreaks thr tw start db)))
        = filter (\<lambda>ob. outbreakKey ob = k) (diseaseOutbreaks db)) \<and>
   (atMostOneActive (diseaseOutbreaks db) \<longrightarrow>
      atMostOneActive (diseaseOutbreaks (fst (detectNewOutbreaks thr tw start db)))) \<and>
   (atMostOneActive (diseaseOutbreaks db) \<longrightarrow>
      atMostOneActive (diseaseOutbreaks (runDetections runs db)))"
  using detectLoop_keeps_pair detect_invariant runDetections_invariant
  unfolding detect_outbreaks by blast

theorem detection_keeps_one_active_outbreak_witness:
  "atMostOneActive (diseaseOutbreaks
      (runDetections [(3, 7, 993 * msPerDay), (3, 7, 993 * msPerDay)] fluDatabase)) \<and>
   length (diseaseOutbreaks
      (runDetections [(3, 7, 993 * msPerDay), (3, 7, 993 * msPerDay)] fluDatabase)) = 1"
proof -
  have a: "atMostOneActive (diseaseOutbreaks fluDatabase)" by code_simp
  have b: "length (diseaseOutbreaks
      (runDetections [(3, 7, 993 * msPerDay), (3, 7, 993 * msPerDay)] fluDatabase)) = 1"
    by code_simp
  from detection_keeps_one_active_outbreak
         [of _ fluDatabase _ _ _ "[(3, 7, 993 * msPerDay), (3, 7, 993 * msPerDay)]"] a b
  show ?thesis by blast
qed


subsection \<open>Which outbreaks a run creates\<close>

lemma considered_matchStage: "filter (matchStage start) cs = consideredCases start cs"
  unfolding consideredCases_def
  by (rule filter_cong) (simp_all add: matchStage_def)

lemma casesOf_groupKey: "filter (\<lambda>c. groupKey c = k) cs = casesOf k cs"
  by (simp add: casesOf_def groupKey_def prod_eq_iff)

lemma groupOf_id: "group_id (groupOf cs k) = k"
  by (simp add: groupOf_def Let_def)

lemma groupStage_ids: "map group_id (groupStage cs) = remdups (map groupKey cs)"
  by (simp add: groupStage_def comp_def groupOf_id)

lemma groupStage_member:
  "g \<in> set (groupStage cs) \<Longrightarrow> g = groupOf cs (group_id g) \<and> group_id g \<in> groupKey ` set cs"
  by (auto simp: groupStage_def groupOf_id)

lemma distinct_filter_ids:
  "distinct (map group_id gs) \<Longrightarrow> distinct (map group_id (filter P gs))"
  by (simp add: distinct_map_filter)

lemma potentialOutbreaks_distinct:
  "distinct (map group_id (potentialOutbreaks thr start cs))"
  unfolding potentialOutbreaks_def
  by (rule distinct_filter_ids) (simp add: groupStage_ids)

lemma storable_key: "storable g \<Longrightarrow> storedKey (group_id g) = group_id g"
  by (simp add: storable_def storedKey_def)

lemma save_ok:
  "storable g \<Longrightarrow> save (newOutbreak thr tw g) obs = Inr (obs @ [newOutbreak thr tw g])"
  by (simp add: storable_def save_def newOutbreak_def)

lemma detectLoop_closed:
  "distinct (map group_id gs) \<Longrightarrow> list_all storable gs \<Longrightarrow>
   detectLoop thr tw gs obs acc =
     (obs @ map (newOutbreak thr tw) (filter (\<lambda>g. \<not> hasActive (group_id g) obs) gs),
      Inr (acc @ map (newOutbreak thr tw) (filter (\<lambda>g. \<not> hasActive (group_id g) obs) gs)))"
proof (induction gs arbitrary: obs acc)
  case Nil
  then show ?case by simp
next
  case (Cons g gs)
  from Cons.prems have d: "distinct (map group_id gs)"
    and st: "list_all storable gs"
    and g: "storable g"
    and fresh: "group_id g \<notin> group_id ` set gs"
    by simp_all
  note key = storable_key [OF g]
  show ?case
  proof (cases "hasActive (group_id g) obs")
    case True
    then have "hasActive (storedKey (group_id g)) obs" by (simp add: key)
    from findOneActive_Some [OF this]
    obtain e where "findOneActive (fst (group_id g)) (snd (group_id g)) obs = Some e" ..
    then show ?thesis using Cons.IH [OF d st] True by simp
  next
    case False
    then have none: "findOneActive (fst (group_id g)) (snd (group_id g)) obs = None"
      by (simp add: findOneActive_None key)
    have same: "filter (\<lambda>g'. \<not> hasActive (group_id g') (obs @ [newOutbreak thr tw g])) gs
        = filter (\<lambda>g'. \<not> hasActive (group_id g') obs) gs"
      using fresh by (intro filter_cong refl) (auto simp: hasActive_append newOutbreak_key key)
    show ?thesis
      using none save_ok [OF g] False Cons.IH [OF d st, of "obs @ [newOutbreak thr tw g]"]
      by (simp add: same)
  qed
qed

lemma groupOf_fields:
  "caseCount (groupOf cs k) = length (casesOf k cs)"
  "group_emergencyCases (groupOf cs k) = length (filter isEmergency (casesOf k cs))"
  "group_criticalCases (groupOf cs k)
     = length (filter (\<lambda>c. case_severity c = Critical) (casesOf k cs))"
  "group_averageConfidence (groupOf cs k)
     = sum_list (map case_confidence (casesOf k cs)) / of_nat (length (casesOf k cs))"
  by (simp_all add: groupOf_def Let_def casesOf_groupKey)

lemma sum_list_unit_bounds:
  "\<forall>x \<in> set xs. (0::rat) \<le> x \<and> x \<le> 1 \<Longrightarrow>
   0 \<le> sum_list xs \<and> sum_list xs \<le> of_nat (length xs)"
  by (induction xs) auto

lemma average_unit_bounds:
  assumes "\<forall>x \<in> set xs. (0::rat) \<le> x \<and> x \<le> 1"
  shows "0 \<le> sum_list xs / of_nat (length xs)" "sum_list xs / of_nat (length xs) \<le> 1"
proof -
  from sum_list_unit_bounds [OF assms]
  have s: "0 \<le> sum_list xs" "sum_list xs \<le> of_nat (length xs)" by simp_all
  show "0 \<le> sum_list xs / of_nat (length xs)" using s(1) by simp
  show "sum_list xs / of_nat (length xs) \<le> 1"
  proof (cases "xs = []")
    case True
    then show ?thesis by simp
  next
    case False
    then have "(0::rat) < of_nat (length xs)" by simp
    with s(2) show ?thesis by (simp add: divide_le_eq)
  qed
qed

lemma groups_storable:
  assumes ok: "list_all acceptableCase cs" and g: "g \<in> set (groupStage cs)"
  shows "storable g"
proof -
  from groupStage_member [OF g] obtain c where c: "c \<in> set cs" "group_id g = groupKey c"
    and gg: "g = groupOf cs (group_id g)" by auto
  from ok c(1) have a: "acceptableCase c" by (simp add: list_all_iff)
  have "\<forall>x \<in> set (map case_confidence (casesOf (group_id g) cs)). 0 \<le> x \<and> x \<le> 1"
    using ok by (auto simp: list_all_iff casesOf_def acceptableCase_def)
  from average_unit_bounds [OF this]
  have "0 \<le> group_averageConfidence (groupOf cs (group_id g))"
    "group_averageConfidence (groupOf cs (group_id g)) \<le> 1"
    by (simp_all add: groupOf_fields)
  with gg have "0 \<le> group_averageConfidence g" "group_averageConfidence g \<le> 1" by simp_all
  with a c(2) show ?thesis by (simp add: storable_def acceptableCase_def groupKey_def)
qed

lemma detect_closed:
  assumes ok: "list_all acceptableCase (consideredCases start (diseaseCases db))"
  shows "detectNewOutbreaks thr tw start db =
     (db\<lparr>diseaseOutbreaks := diseaseOutbreaks db @
          map (newOutbreak thr tw)
            (filter (\<lambda>g. \<not> hasActive (group_id g) (diseaseOutbreaks db))
               (potentialOutbreaks thr start (diseaseCases db)))\<rparr>,
      Inr (map (newOutbreak thr tw)
            (filter (\<lambda>g. \<not> hasActive (group_id g) (diseaseOutbreaks db))
               (potentialOutbreaks thr start (diseaseCases db)))))"
proof -
  let ?gs = "potentialOutbreaks thr start (diseaseCases db)"
  have "list_all storable ?gs"
    unfolding list_all_iff
  proof
    fix g assume "g \<in> set ?gs"
    then have "g \<in> set (groupStage (consideredCases start (diseaseCases db)))"
      by (simp add: potentialOutbreaks_def considered_matchStage)
    from groups_storable [OF ok this] show "storable g" .
  qed
  from detectLoop_closed [OF potentialOutbreaks_distinct this]
  show ?thesis by (simp add: detectNewOutbreaks_def Let_def)
qed

lemma potential_ids:
  "1 \<le> thr \<Longrightarrow>
   group_id ` set (potentialOutbreaks thr start cs) =
     {k. thr \<le> int (length (casesOf k (consideredCases start cs)))}"
proof (intro set_eqI iffI)
  fix k assume "k \<in> group_id ` set (potentialOutbreaks thr start cs)"
  then obtain g where g: "g \<in> set (groupStage (consideredCases start cs))"
    "thr \<le> int (caseCount g)" "k = group_id g"
    by (auto simp: potentialOutbreaks_def considered_matchStage)
  from groupStage_member [OF g(1)] g(2,3)
  show "k \<in> {k. thr \<le> int (length (casesOf k (consideredCases start cs)))}"
    by (metis groupOf_fields(1) mem_Collect_eq)
next
  fix k assume "k \<in> {k. thr \<le> int (length (casesOf k (consideredCases start cs)))}"
    and thr: "1 \<le> thr"
  then have n: "thr \<le> int (length (casesOf k (consideredCases start cs)))" by simp
  with thr have "casesOf k (consideredCases start cs) \<noteq> []" by auto
  then obtain c where "c \<in> set (consideredCases start cs)" "groupKey c = k"
    unfolding casesOf_groupKey [symmetric] by (auto simp: filter_empty_conv)
  then have "k \<in> set (remdups (map groupKey (consideredCases start cs)))" by auto
  then have "groupOf (consideredCases start cs) k \<in> set (groupStage (consideredCases start cs))"
    by (simp add: groupStage_def)
  with n have "groupOf (consideredCases start cs) k \<in> set (potentialOutbreaks thr start cs)"
    by (simp add: potentialOutbreaks_def considered_matchStage groupOf_fields)
  then show "k \<in> group_id ` set (potentialOutbreaks thr start cs)"
    by (metis groupOf_id image_eqI)
qed

lemma potential_member:
  "g \<in> set (potentialOutbreaks thr start cs) \<Longrightarrow>
   g = groupOf (consideredCases start cs) (group_id g)"
  using groupStage_member [of g "consideredCases start cs"]
  by (simp add: potentialOutbreaks_def considered_matchStage)

lemma potential_storable:
  "list_all acceptableCase (consideredCases start cs) \<Longrightarrow>
   g \<in> set (potentialOutbreaks thr start cs) \<Longrightarrow> storable g"
  using groups_storable [of "consideredCases start cs" g]
  by (simp add: potentialOutbreaks_def considered_matchStage)

lemma newOutbreak_fields:
  "totalCases (newOutbreak thr tw (groupOf cs k)) = length (casesOf k cs)"
  "emergencyCases (newOutbreak thr tw (groupOf cs k)) = length (filter isEmergency (casesOf k cs))"
  "outbreak_severity (newOutbreak thr tw (groupOf cs k)) =
     severityRule (length (casesOf k cs)) (length (filter isEmergency (casesOf k cs)))"
  "threshold (newOutbreak thr tw (groupOf cs k)) = thr"
  "timeWindow (newOutbreak thr tw (groupOf cs k)) = tw"
  by (simp_all add: newOutbreak_def outbreakSeverity_def severityRule_def groupOf_fields)

lemma detect_characterisation:
  assumes thr: "1 \<le> thr"
    and ok: "list_all acceptableCase (consideredCases start (diseaseCases db))"
  shows "\<exists>news.
      detectNewOutbreaks thr tw start db =
        (db\<lparr>diseaseOutbreaks := diseaseOutbreaks db @ news\<rparr>, Inr news) \<and>
      distinct (map outbreakKey news) \<and>
      set (map outbreakKey news) =
        {k. thr \<le> int (length (casesOf k (consideredCases start (diseaseCases db)))) \<and>
            \<not> hasActive k (diseaseOutbreaks db)} \<and>
      list_all (\<lambda>ob.
          totalCases ob
            = length (casesOf (outbreakKey ob) (consideredCases start (diseaseCases db))) \<and>
          emergencyCases ob
            = length (filter isEmergency
                (casesOf (outbreakKey ob) (consideredCases start (diseaseCases db)))) \<and>
          outbreak_severity ob = severityRule (totalCases ob) (emergencyCases ob) \<and>
          isActive ob \<and> threshold ob = thr \<and> timeWindow ob = tw) news"
proof -
  let ?cs = "consideredCases start (diseaseCases db)"
  let ?ps = "potentialOutbreaks thr start (diseaseCases db)"
  let ?gs = "filter (\<lambda>g. \<not> hasActive (group_id g) (diseaseOutbreaks db)) ?ps"
  let ?news = "map (newOutbreak thr tw) ?gs"
  have st: "storable g" if "g \<in> set ?ps" for g
    using potential_storable [OF ok that] .
  have keys: "map outbreakKey ?news = map group_id ?gs"
    unfolding map_map
    by (rule map_cong) (auto simp: newOutbreak_key storable_key st)
  have 1: "detectNewOutbreaks thr tw start db =
        (db\<lparr>diseaseOutbreaks := diseaseOutbreaks db @ ?news\<rparr>, Inr ?news)"
    by (rule detect_closed [OF ok])
  have 2: "distinct (map outbreakKey ?news)"
    unfolding keys by (rule distinct_filter_ids) (rule potentialOutbreaks_distinct)
  have 3: "set (map outbreakKey ?news) =
        {k. thr \<le> int (length (casesOf k ?cs)) \<and> \<not> hasActive k (diseaseOutbreaks db)}"
  proof -
    have "set (map group_id ?gs) =
        {k \<in> group_id ` set ?ps. \<not> hasActive k (diseaseOutbreaks db)}"
      by auto
    then show ?thesis unfolding keys potential_ids [OF thr] by auto
  qed
  have 4: "list_all (\<lambda>ob.
          totalCases ob = length (casesOf (outbreakKey ob) ?cs) \<and>
          emergencyCases ob = length (filter isEmergency (casesOf (outbreakKey ob) ?cs)) \<and>
          outbreak_severity ob = severityRule (totalCases ob) (emergencyCases ob) \<and>
          isActive ob \<and> threshold ob = thr \<and> timeWindow ob = tw) ?news"
    unfolding list_all_iff
  proof
    fix ob assume "ob \<in> set ?news"
    then obtain g where g: "g \<in> set ?ps" and ob: "ob = newOutbreak thr tw g" by auto
    from potential_member [OF g] have "ob = newOutbreak thr tw (groupOf ?cs (group_id g))"
      using ob by simp
    moreover have "outbreakKey ob = group_id g"
      using ob by (simp add: newOutbreak_key storable_key [OF st [OF g]])
    ultimately show "totalCases ob = length (casesOf (outbreakKey ob) ?cs) \<and>
          emergencyCases ob = length (filter isEmergency (casesOf (outbreakKey ob) ?cs)) \<and>
          outbreak_severity ob = severityRule (totalCases ob) (emergencyCases ob) \<and>
          isActive ob \<and> threshold ob = thr \<and> timeWindow ob = tw"
      by (simp add: newOutbreak_fields newOutbreak_active)
  qed
  from 1 2 3 4 show ?thesis by blast
qed

lemma singleton_keys:
  assumes "distinct (map f xs)" "set (map f xs) = {k}"
  shows "\<exists>x. xs = [x] \<and> f x = k"
proof -
  from assms have "length (map f xs) = card {k}" by (metis distinct_card)
  then have "length xs = 1" by simp
  then obtain x where "xs = [x]" by (cases xs) auto
  with assms(2) show ?thesis by simp
qed

lemma trim_flu: "trim ''flu'' = ''flu''"
  by code_simp

lemma five_flu_cases:
  assumes five: "fiveFluCases start now cs"
  shows "\<exists>ob. snd (detectNewOutbreaks 3 7 start \<lparr>diseaseCases = cs, diseaseOutbreaks = []\<rparr>) = Inr [ob] \<and>
      outbreak_diseaseName ob = ''flu'' \<and> outbreak_location ob = ''Clinic A'' \<and>
      totalCases ob = 5 \<and> outbreak_severity ob = Medium"
proof -
  let ?db = "\<lparr>diseaseCases = cs, diseaseOutbreaks = []\<rparr>"
  let ?k = "(''flu'', ''Clinic A'')"
  from five have len: "length cs = 5"
    and all: "\<forall>c \<in> set cs. diseaseName c = ''flu'' \<and> location c = ''Clinic A'' \<and> \<not> isEmergency c \<and>
                    (case_status c = Detected \<or> case_status c = Confirmed) \<and>
                    0 \<le> case_confidence c \<and> case_confidence c \<le> 1 \<and> start \<le> caseDate c"
    by (auto simp: fiveFluCases_def list_all_iff)
  have cons: "consideredCases start cs = cs"
    unfolding consideredCases_def using all by (simp add: filter_id_conv)
  have mine: "casesOf ?k cs = cs"
    unfolding casesOf_def using all by (simp add: filter_id_conv)
  have other: "casesOf k cs = []" if "k \<noteq> ?k" for k
    unfolding casesOf_def using all that by (auto simp: filter_empty_conv prod_eq_iff)
  have noem: "filter isEmergency cs = []"
    using all by (auto simp: filter_empty_conv)
  have ok: "list_all acceptableCase (consideredCases start (diseaseCases ?db))"
    using all by (auto simp: cons list_all_iff acceptableCase_def trim_flu)
  from detect_characterisation [of 3 start ?db 7, OF _ ok]
  obtain news where r: "detectNewOutbreaks 3 7 start ?db =
        (?db\<lparr>diseaseOutbreaks := diseaseOutbreaks ?db @ news\<rparr>, Inr news)"
    and d: "distinct (map outbreakKey news)"
    and s: "set (map outbreakKey news) =
        {k. 3 \<le> int (length (casesOf k cs)) \<and> \<not> hasActive k []}"
    and f: "list_all (\<lambda>ob.
          totalCases ob = length (casesOf (outbreakKey ob) cs) \<and>
          emergencyCases ob = length (filter isEmergency (casesOf (outbreakKey ob) cs)) \<and>
          outbreak_severity ob = severityRule (totalCases ob) (emergencyCases ob) \<and>
          isActive ob \<and> threshold ob = 3 \<and> timeWindow ob = 7) news"
    by (auto simp: cons)
  have "{k. 3 \<le> int (length (casesOf k cs)) \<and> \<not> hasActive k []} = {?k}"
  proof (intro set_eqI iffI)
    fix k assume "k \<in> {k. 3 \<le> int (length (casesOf k cs)) \<and> \<not> hasActive k []}"
    then have "casesOf k cs \<noteq> []" by auto
    with other [of k] show "k \<in> {?k}" by auto
  next
    fix k assume "k \<in> {?k}"
    then show "k \<in> {k. 3 \<le> int (length (casesOf k cs)) \<and> \<not> hasActive k []}"
      using mine len by (simp add: hasActive_def)
  qed
  with s have "set (map outbreakKey news) = {?k}" by simp
  from singleton_keys [OF d this] obtain ob where ob: "news = [ob]" "outbreakKey ob = ?k"
    by blast
  from f ob mine noem len have "totalCases ob = 5" "emergencyCases ob = 0"
    "outbreak_severity ob = severityRule (totalCases ob) (emergencyCases ob)"
    by simp_all
  then have "totalCases ob = 5" "outbreak_severity ob = Medium"
    by (simp_all add: severityRule_def)
  with r ob show ?thesis by (auto simp: outbreakKey_def)
qed

text \<open>
  Claim C5 says that a run considers exactly the cases dated within the trailing time window.
  The query only bounds the case date from below: three cases dated after \<open>now\<close>, none
  of them between the start date and \<open>now\<close>, still produce an outbreak with three cases.
\<close>

theorem future_dated_cases_are_counted:
  "filter (spec_inTrailingWindow (993 * msPerDay) (1000 * msPerDay))
     (diseaseCases futureDatabase) = [] \<and>
   map_sum id (map totalCases) (snd (detectNewOutbreaks 3 7 (993 * msPerDay) futureDatabase))
     = Inr [3]"
  by code_simp

text \<open>
  Claim C5 as amended: for a threshold and a time window of at least 1, over case records
  stored through the DiseaseCase schema (disease name trimmed and not empty, confidence
  between 0 and 1) with a location that is not empty, a run considers exactly the cases
  with status detected or confirmed and a case date no earlier than the start date, which
  is the time of the call moved back by \<open>timeWindow\<close> calendar days; it groups them by
  (diseaseName, location) and creates one outbreak for exactly the groups with at least
  \<open>threshold\<close> cases and no active outbreak; the outbreak carries the case count and the
  emergency count of its group and the severity critical, high, medium or low by the stated
  rule. Five non-emergency flu cases at Clinic A, all dated between the start date of a
  seven-day window and now, give, with threshold 3 and no outbreak stored before, exactly
  one outbreak, with 5 cases and severity medium.
\<close>

theorem detectNewOutbreaks_characterisation:
  "(1 \<le> thr \<and> 1 \<le> tw \<and>
    list_all acceptableCase (consideredCases start (diseaseCases db)) \<longrightarrow>
    (\<exists>news.
       detectNewOutbreaks thr tw start db =
         (db\<lparr>diseaseOutbreaks := diseaseOutbreaks db @ news\<rparr>, Inr news) \<and>
       distinct (map outbreakKey news) \<and>
       set (map outbreakKey news) =
         {k. thr \<le> int (length (casesOf k (consideredCases start (diseaseCases db)))) \<and>
             \<not> hasActive k (diseaseOutbreaks db)} \<and>
       list_all (\<lambda>ob.
           totalCases ob
             = length (casesOf (outbreakKey ob) (consideredCases start (diseaseCases db))) \<and>
           emergencyCases ob
             = length (filter isEmergency
                 (casesOf (outbreakKey ob) (consideredCases start (diseaseCases db)))) \<and>
           outbreak_severity ob = severityRule (totalCases ob) (emergencyCases ob) \<and>
           isActive ob \<and> threshold ob = thr \<and> timeWindow ob = tw) news)) \<and>
   (fiveFluCases start now cs \<longrightarrow>
    (\<exists>ob. snd (detectNewOutbreaks 3 7 start \<lparr>diseaseCases = cs, diseaseOutbreaks = []\<rparr>) = Inr [ob] \<and>
       outbreak_diseaseName ob = ''flu'' \<and> outbreak_location ob = ''Clinic A'' \<and>
       totalCases ob = 5 \<and> outbreak_severity ob = Medium))"
  using detect_characterisation [of thr start db tw] five_flu_cases [of start now cs] by blast

theorem detectNewOutbreaks_characterisation_witness:
  "map_sum id (map (\<lambda>ob. (outbreak_diseaseName ob, outbreak_location ob, totalCases ob,
                              outbreak_severity ob)))
     (snd (detectNewOutbreaks 3 7 (993 * msPerDay) fluDatabase))
     = Inr [(''flu'', ''Clinic A'', 5, Medium)] \<and>
   (\<exists>news. detectNewOutbreaks 3 7 (993 * msPerDay) fluDatabase =
        (fluDatabase\<lparr>diseaseOutbreaks := diseaseOutbreaks fluDatabase @ news\<rparr>, Inr news))"
proof -
  have g: "(1::int) \<le> 3 \<and> (1::int) \<le> 7 \<and>
      list_all acceptableCase (consideredCases (993 * msPerDay) (diseaseCases fluDatabase))"
    by code_simp
  have h: "fiveFluCases (993 * msPerDay) (1000 * msPerDay) (diseaseCases fluDatabase)"
    by code_simp
  have d: "\<lparr>diseaseCases = diseaseCases fluDatabase, diseaseOutbreaks = []\<rparr> = fluDatabase"
    by (simp add: fluDatabase_def)
  note t = detectNewOutbreaks_characterisation
             [where thr = 3 and tw = 7 and start = "993 * msPerDay" and db = fluDatabase
                and now = "1000 * msPerDay" and cs = "diseaseCases fluDatabase"]
  from t h obtain ob where "snd (detectNewOutbreaks 3 7 (993 * msPerDay)
        \<lparr>diseaseCases = diseaseCases fluDatabase, diseaseOutbreaks = []\<rparr>) = Inr [ob]"
    "outbreak_diseaseName ob = ''flu''" "outbreak_location ob = ''Clinic A''"
    "totalCases ob = 5" "outbreak_severity ob = Medium"
    by blast
  then have 1: "map_sum id (map (\<lambda>ob. (outbreak_diseaseName ob, outbreak_location ob, totalCases ob,
                              outbreak_severity ob)))
     (snd (detectNewOutbreaks 3 7 (993 * msPerDay) fluDatabase))
     = Inr [(''flu'', ''Clinic A'', 5, Medium)]"
    unfolding d by simp
  from t g have 2: "\<exists>news. detectNewOutbreaks 3 7 (993 * msPerDay) fluDatabase =
        (fluDatabase\<lparr>diseaseOutbreaks := diseaseOutbreaks fluDatabase @ news\<rparr>, Inr news)"
    by blast
  from 1 2 show ?thesis by blast
qed

end
